theory Spec2Isabelle
  imports Complex_Main "HOL-Library.AList"
begin

text \<open>
  A model of the health API: nine resource modules (patients, providers, appointments,
  encounters, prescriptions, labs, vitals, inventory, billing), each an Express router
  over one Mongoose model with a Zod schema for its request bodies, and the reports
  module. The handlers are modelled as the modules write them. What they call in Zod
  (version 3: \<^verbatim>\<open>parse\<close> and the \<^verbatim>\<open>errors\<close> of the error it throws), in Mongoose (schema
  casting and validation, \<^verbatim>\<open>create\<close>, \<^verbatim>\<open>findById\<close>, \<^verbatim>\<open>findByIdAndUpdate\<close>,
  \<^verbatim>\<open>findByIdAndDelete\<close>) and in JavaScript (\<^verbatim>\<open>new Date\<close>, truthiness, object spread) is
  modelled as far as the handlers use it; each section says what is left out.
\<close>

section \<open>JavaScript values\<close>

text \<open>
  The values the route handlers see: a parsed JSON request body, the object a Zod schema
  returns, and the object literal a handler hands to a Mongoose model. A number is a
  rational (JSON cannot write NaN or an infinity), a \<open>Date\<close> object holds its time value in
  milliseconds since the epoch, or nothing when it is an \<open>Invalid Date\<close>. A string is a list
  of characters; its \<open>length\<close> is the number of characters, as JavaScript counts the code
  units of an ASCII string.
\<close>

datatype jsval =
    JUndefined
  | JNull
  | JBool bool
  | JNum rat
  | JStr string
  | JDate "int option"
  | JArr "jsval list"
  | JObj "(string \<times> jsval) list"

type_synonym jsobject = "(string \<times> jsval) list"

text \<open>\<^verbatim>\<open>obj[key]\<close>: a missing property reads as \<^verbatim>\<open>undefined\<close>.\<close>

definition prop_get :: "jsobject \<Rightarrow> string \<Rightarrow> jsval" where
  "prop_get obj k = (case map_of obj k of None \<Rightarrow> JUndefined | Some v \<Rightarrow> v)"

text \<open>\<^verbatim>\<open>{...obj, key: v}\<close>: the property is overwritten in place, or added last.\<close>

definition prop_set :: "string \<Rightarrow> jsval \<Rightarrow> jsobject \<Rightarrow> jsobject" where
  "prop_set k v obj = AList.update k v obj"

text \<open>What \<^verbatim>\<open>if (v)\<close>, \<^verbatim>\<open>v ? a : b\<close> and \<^verbatim>\<open>v || d\<close> test.\<close>

fun truthy :: "jsval \<Rightarrow> bool" where
  "truthy JUndefined = False"
| "truthy JNull = False"
| "truthy (JBool b) = b"
| "truthy (JNum x) = (x \<noteq> 0)"
| "truthy (JStr s) = (s \<noteq> [])"
| "truthy (JDate t) = True"
| "truthy (JArr xs) = True"
| "truthy (JObj kvs) = True"

definition js_or :: "jsval \<Rightarrow> jsval \<Rightarrow> jsval" where
  "js_or v d = (if truthy v then v else d)"

section \<open>The two regular expressions of the validation schemas\<close>

text \<open>
  \<^verbatim>\<open>/^\d{4}-\d{2}-\d{2}$/\<close> and \<^verbatim>\<open>/^\d{4}-\d{2}-\d{2}T\d{2}:\d{2}:\d{2}\.\d{3}Z?$/\<close>
  are anchored sequences of three kinds of atoms: a run of exactly \<open>n\<close> ASCII digits, a literal
  character, and an optional character.
\<close>

datatype rxatom = Digits nat | Lit char | Opt char

definition is_digit :: "char \<Rightarrow> bool" where
  "is_digit c = (c \<in> set ''0123456789'')"

fun rx_match :: "rxatom list \<Rightarrow> string \<Rightarrow> bool" where
  "rx_match [] s = (s = [])"
| "rx_match (Digits n # r) s =
     (n \<le> length s \<and> list_all is_digit (take n s) \<and> rx_match r (drop n s))"
| "rx_match (Lit c # r) s = (case s of [] \<Rightarrow> False | x # xs \<Rightarrow> x = c \<and> rx_match r xs)"
| "rx_match (Opt c # r) s =
     ((case s of [] \<Rightarrow> False | x # xs \<Rightarrow> x = c \<and> rx_match r xs) \<or> rx_match r s)"

definition date_rx :: "rxatom list" where
  "date_rx = [Digits 4, Lit CHR ''-'', Digits 2, Lit CHR ''-'', Digits 2]"

definition datetime_rx :: "rxatom list" where
  "datetime_rx =
     [Digits 4, Lit CHR ''-'', Digits 2, Lit CHR ''-'', Digits 2, Lit CHR ''T'',
      Digits 2, Lit CHR '':'', Digits 2, Lit CHR '':'', Digits 2, Lit CHR ''.'', Digits 3,
      Opt CHR ''Z'']"

section \<open>\<^verbatim>\<open>new Date(string)\<close>\<close>

text \<open>
  The handlers call \<^verbatim>\<open>new Date(s)\<close> only on strings that passed one of the two regular
  expressions, so only these two shapes are modelled; every other string gives an
  \<open>Invalid Date\<close> here. Node's parser (V8) first reads the string as an ECMAScript date-time
  string: a month from 01 to 12 and a day from 01 to 31 (a day past the end of a month
  rolls over into the next one), then, after \<^verbatim>\<open>T\<close>, an hour up to 23, a minute and a second
  up to 59, or \<^verbatim>\<open>24:00:00.000\<close>. The date-only form is UTC; a date-time with no \<^verbatim>\<open>Z\<close> is
  local time, turned into UTC by the local offset \<open>tza\<close> of the host (ECMAScript's
  \<open>LocalTZA\<close>), a parameter of the model.

  When the month or the day is outside its range, V8 does not give up: it hands the rest
  of the string to its legacy parser. For a date-only string the legacy parser has the
  three numbers and reads them as month, day and year when the first one can be a day
  (with a year below 50 taken in 2000 and a year below 100 in 1900), as year, month and
  day otherwise, in local time: \<^verbatim>\<open>new Date('0004-13-12')\<close> is 13 April 2012, while
  \<^verbatim>\<open>new Date('2024-13-99')\<close> is an \<open>Invalid Date\<close>. In a date-time string the legacy parser
  meets the \<^verbatim>\<open>T\<close> after the numbers and gives an \<open>Invalid Date\<close>, as does a time out of
  range.
\<close>

definition num_of :: "string \<Rightarrow> int" where
  "num_of s = foldl (\<lambda>a c. 10 * a + (int (of_char c) - 48)) 0 s"

definition MakeDay :: "int \<Rightarrow> int \<Rightarrow> int \<Rightarrow> int" where
  "MakeDay y m d =
     (let y' = (if m \<le> 2 then y - 1 else y);
          era = y' div 400;
          yoe = y' - era * 400;
          mp = (m + 9) mod 12;
          doy = (153 * mp + 2) div 5 + d - 1;
          doe = yoe * 365 + yoe div 4 - yoe div 100 + doy
      in era * 146097 + doe - 719468)"

definition MakeTime :: "int \<Rightarrow> int \<Rightarrow> int \<Rightarrow> int \<Rightarrow> int" where
  "MakeTime h mi sec ms = h * 3600000 + mi * 60000 + sec * 1000 + ms"

definition MakeDate :: "int \<Rightarrow> int \<Rightarrow> int" where
  "MakeDate day time = day * 86400000 + time"

text \<open>The day the legacy parser makes of three numbers, if any.\<close>

definition legacy_day :: "int \<Rightarrow> int \<Rightarrow> int \<Rightarrow> int option" where
  "legacy_day a b c =
     (let (year, month, day) = (if 1 \<le> a \<and> a \<le> 31 then (c, a, b) else (a, b, c));
          year' = (if 0 \<le> year \<and> year \<le> 49 then year + 2000
                   else if 50 \<le> year \<and> year \<le> 99 then year + 1900 else year)
      in if 1 \<le> month \<and> month \<le> 12 \<and> 1 \<le> day \<and> day \<le> 31
         then Some (MakeDay year' month day) else None)"

definition Date_parse :: "(int \<Rightarrow> int) \<Rightarrow> string \<Rightarrow> int option" where
  "Date_parse tza s =
     (let y = num_of (take 4 s);
          m = num_of (take 2 (drop 5 s));
          d = num_of (take 2 (drop 8 s));
          h = num_of (take 2 (drop 11 s));
          mi = num_of (take 2 (drop 14 s));
          sec = num_of (take 2 (drop 17 s));
          ms = num_of (take 3 (drop 20 s))
      in if rx_match date_rx s then
           (if 1 \<le> m \<and> m \<le> 12 \<and> 1 \<le> d \<and> d \<le> 31 then Some (MakeDate (MakeDay y m d) 0)
            else
              (case legacy_day y m d of
                 None \<Rightarrow> None
               | Some day \<Rightarrow> Some (MakeDate day 0 - tza (MakeDate day 0))))
         else if rx_match datetime_rx s then
           (if 1 \<le> m \<and> m \<le> 12 \<and> 1 \<le> d \<and> d \<le> 31 \<and> mi \<le> 59 \<and> sec \<le> 59 \<and>
               (h \<le> 23 \<or> (h = 24 \<and> mi = 0 \<and> sec = 0 \<and> ms = 0))
            then
              (let t = MakeDate (MakeDay y m d) (MakeTime h mi sec ms)
               in Some (if length s = 24 then t else t - tza t))
            else None)
         else None)"

text \<open>
  \<^verbatim>\<open>new Date(v)\<close>. The handlers pass strings (Zod has checked the type before); any other
  argument is outside the model and gives an \<open>Invalid Date\<close>.
\<close>

definition new_Date :: "(int \<Rightarrow> int) \<Rightarrow> jsval \<Rightarrow> jsval" where
  "new_Date tza v = (case v of JStr s \<Rightarrow> JDate (Date_parse tza s) | _ \<Rightarrow> JDate None)"

section \<open>Errors a handler can meet\<close>

datatype zcode = invalid_type | too_small | invalid_string | invalid_enum_value

datatype zissue = ZodIssue (zcode: zcode) (zpath: "string list")

datatype vkind = cast_failed | required_kind | enum_kind

datatype exn =
    ZodError "zissue list"
  | ValidationError "(string \<times> vkind) list"
  | CastError string
  | DuplicateKey
  | StoreError

section \<open>Zod schemas\<close>

text \<open>
  A Zod schema as data: the type of a field with its checks, \<^verbatim>\<open>.optional()\<close> as a wrapper.
  Parsing a value gives the codes of all the checks it fails (Zod runs every check of a
  string or a number and every field of an object; it never stops at the first issue).
  The codes are those of Zod 3: a missing or wrongly typed value and a number that is no
  integer are \<^verbatim>\<open>invalid_type\<close>, a string that is too short and a number that is too small
  are \<^verbatim>\<open>too_small\<close>, a string that fails its regular expression is \<^verbatim>\<open>invalid_string\<close>.
\<close>

datatype strcheck = Min nat | Regex "rxatom list"

datatype numcheck = IsInt | Nonnegative | Positive

datatype ztype =
    ZString "strcheck list"
  | ZNumber "numcheck list"
  | ZBoolean
  | ZEnum "string list"
  | ZOptional ztype

type_synonym zshape = "(string \<times> ztype) list"

fun strcheck_issues :: "strcheck \<Rightarrow> string \<Rightarrow> zcode list" where
  "strcheck_issues (Min n) s = (if length s < n then [too_small] else [])"
| "strcheck_issues (Regex r) s = (if rx_match r s then [] else [invalid_string])"

fun numcheck_issues :: "numcheck \<Rightarrow> rat \<Rightarrow> zcode list" where
  "numcheck_issues IsInt x = (if of_int \<lfloor>x\<rfloor> = x then [] else [invalid_type])"
| "numcheck_issues Nonnegative x = (if x < 0 then [too_small] else [])"
| "numcheck_issues Positive x = (if x \<le> 0 then [too_small] else [])"

fun zparse_value :: "ztype \<Rightarrow> jsval \<Rightarrow> zcode list" where
  "zparse_value (ZString cs) v =
     (case v of JStr s \<Rightarrow> concat (map (\<lambda>c. strcheck_issues c s) cs) | _ \<Rightarrow> [invalid_type])"
| "zparse_value (ZNumber cs) v =
     (case v of JNum x \<Rightarrow> concat (map (\<lambda>c. numcheck_issues c x) cs) | _ \<Rightarrow> [invalid_type])"
| "zparse_value ZBoolean v = (case v of JBool b \<Rightarrow> [] | _ \<Rightarrow> [invalid_type])"
| "zparse_value (ZEnum vs) v =
     (case v of JStr s \<Rightarrow> (if s \<in> set vs then [] else [invalid_enum_value])
      | _ \<Rightarrow> [invalid_type])"
| "zparse_value (ZOptional t) v = (if v = JUndefined then [] else zparse_value t v)"

text \<open>The issues of one field of an object, each with the field as its path.\<close>

definition field_issues :: "jsobject \<Rightarrow> string \<times> ztype \<Rightarrow> zissue list" where
  "field_issues kvs f = map (\<lambda>c. ZodIssue c [fst f]) (zparse_value (snd f) (prop_get kvs (fst f)))"

text \<open>
  \<^verbatim>\<open>z.object(shape).parse(body)\<close>: a body that is no object is one issue at the root;
  otherwise the issues of all fields, in the order of the shape. With no issue the result
  holds the keys of the shape that the body defines; unknown keys are dropped.
\<close>

definition zparse :: "zshape \<Rightarrow> jsval \<Rightarrow> exn + jsobject" where
  "zparse shape body =
     (case body of
        JObj kvs \<Rightarrow>
          (let issues = concat (map (field_issues kvs) shape)
           in if issues = [] then
                Inr (filter (\<lambda>(k, v). v \<noteq> JUndefined) (map (\<lambda>(k, t). (k, prop_get kvs k)) shape))
              else Inl (ZodError issues))
      | _ \<Rightarrow> Inl (ZodError [ZodIssue invalid_type []]))"

definition partial :: "zshape \<Rightarrow> zshape" where
  "partial shape = map (\<lambda>(k, t). (k, ZOptional t)) shape"

section \<open>Mongoose models\<close>

text \<open>
  A collection is the list of its documents in insertion order. A document has its
  \<^verbatim>\<open>_id\<close>, the values of its schema paths, and the two timestamps that the schema option
  \<^verbatim>\<open>timestamps: true\<close> maintains. An ObjectId is kept as its canonical text, 24 lower-case
  hexadecimal digits, which is also how a response prints it. The version key \<^verbatim>\<open>__v\<close> is
  left out: no handler reads or changes it.
\<close>

type_synonym objectid = string

datatype bson = BStr string | BNum rat | BBool bool | BDate int | BOid objectid

record doc =
  oid :: objectid
  props :: "(string \<times> bson) list"
  createdAt :: int
  updatedAt :: int

type_synonym collection = "doc list"

text \<open>
  What the handlers take from their surroundings: the clock, the ObjectId the driver
  generates for the next insert, and the local time zone offset of the host.
\<close>

record env =
  now :: int
  new_oid :: nat
  tza :: "int \<Rightarrow> int"

subsection \<open>ObjectIds\<close>

text \<open>
  A string casts to an ObjectId when it is 24 hexadecimal digits; the cast of any other
  string fails with a \<open>CastError\<close>. (Older drivers also take any string of 12 bytes; no
  statement below depends on what a string of another length than 24 does, except that
  the three-character string of the counterexamples does not cast.)
\<close>

definition is_hex :: "char \<Rightarrow> bool" where
  "is_hex c = (c \<in> set ''0123456789abcdefABCDEF'')"

definition lower_hex :: "char \<Rightarrow> char" where
  "lower_hex c = (case map_of (zip ''ABCDEF'' ''abcdef'') c of Some l \<Rightarrow> l | None \<Rightarrow> c)"

definition castObjectId :: "string \<Rightarrow> objectid option" where
  "castObjectId s =
     (if length s = 24 \<and> list_all is_hex s then Some (map lower_hex s) else None)"

definition hexdigit :: "nat \<Rightarrow> char" where
  "hexdigit k = ''0123456789abcdef'' ! (k mod 16)"

fun hex_digits :: "nat \<Rightarrow> nat \<Rightarrow> string" where
  "hex_digits 0 n = []"
| "hex_digits (Suc k) n = hex_digits k (n div 16) @ [hexdigit n]"

text \<open>The text of a generated ObjectId: the 24 hexadecimal digits of its 96 bits.\<close>

definition hex24 :: "nat \<Rightarrow> objectid" where
  "hex24 n = hex_digits 24 n"

subsection \<open>Schemas, casting and validation\<close>

datatype mtype = MString | MNumber | MBoolean | MDate | MObjectId

record mpath =
  ptype :: mtype
  required :: bool
  enum :: "string list option"
  dflt :: "bson option"

type_synonym mschema = "(string \<times> mpath) list"

text \<open>
  Casting a value to the type of a path. Only the values a handler can pass after Zod has
  accepted the body are modelled: a string for a String or an ObjectId path, a number, a
  boolean, a \<open>Date\<close> object. Mongoose refuses an \<open>Invalid Date\<close> and a string that is no
  ObjectId. (Its more lenient casts, a number to a string for one, and \<^verbatim>\<open>null\<close> never arise
  here and are refused by this model.)
\<close>

definition mcast :: "mtype \<Rightarrow> jsval \<Rightarrow> bson option" where
  "mcast t v =
     (case (t, v) of
        (MString, JStr s) \<Rightarrow> Some (BStr s)
      | (MNumber, JNum x) \<Rightarrow> Some (BNum x)
      | (MBoolean, JBool b) \<Rightarrow> Some (BBool b)
      | (MDate, JDate (Some ms)) \<Rightarrow> Some (BDate ms)
      | (MObjectId, JStr s) \<Rightarrow> map_option BOid (castObjectId s)
      | _ \<Rightarrow> None)"

text \<open>
  One path of a new document: an undefined value takes the default, or is an error when
  the path is required; a defined value is cast, then checked by the \<^verbatim>\<open>required\<close> validator
  (which also refuses the empty string) and the \<^verbatim>\<open>enum\<close> validator.
\<close>

definition validate_path :: "mpath \<Rightarrow> jsval \<Rightarrow> vkind + bson option" where
  "validate_path p v =
     (if v = JUndefined then
        (case dflt p of
           Some d \<Rightarrow> Inr (Some d)
         | None \<Rightarrow> (if required p then Inl required_kind else Inr None))
      else
        (case mcast (ptype p) v of
           None \<Rightarrow> Inl cast_failed
         | Some x \<Rightarrow>
             (if required p \<and> x = BStr [] then Inl required_kind
              else
                (case enum p of
                   None \<Rightarrow> Inr (Some x)
                 | Some vs \<Rightarrow>
                     (case x of
                        BStr s \<Rightarrow> (if s \<in> set vs then Inr (Some x) else Inl enum_kind)
                      | _ \<Rightarrow> Inl enum_kind)))))"

definition path_errors :: "mschema \<Rightarrow> jsobject \<Rightarrow> (string \<times> vkind) list" where
  "path_errors ms obj =
     concat (map (\<lambda>(k, p). case validate_path p (prop_get obj k) of
                              Inl e \<Rightarrow> [(k, e)] | Inr _ \<Rightarrow> []) ms)"

definition path_values :: "mschema \<Rightarrow> jsobject \<Rightarrow> (string \<times> bson) list" where
  "path_values ms obj =
     concat (map (\<lambda>(k, p). case validate_path p (prop_get obj k) of
                              Inr (Some x) \<Rightarrow> [(k, x)] | _ \<Rightarrow> []) ms)"

subsection \<open>The model operations the handlers call\<close>

definition find_doc :: "objectid \<Rightarrow> collection \<Rightarrow> doc option" where
  "find_doc i c = find (\<lambda>d. oid d = i) c"

text \<open>
  \<^verbatim>\<open>Model.create(obj)\<close>: all paths are validated and every failure is collected in one
  \<open>ValidationError\<close>; a valid document gets its \<^verbatim>\<open>_id\<close> and both timestamps and is inserted.
  The store refuses a second document with an \<^verbatim>\<open>_id\<close> it already holds.
\<close>

definition Model_create ::
  "mschema \<Rightarrow> env \<Rightarrow> collection \<Rightarrow> jsobject \<Rightarrow> exn + (collection \<times> doc)" where
  "Model_create ms e c obj =
     (let errs = path_errors ms obj in
      if errs \<noteq> [] then Inl (ValidationError errs)
      else
        (let d = \<lparr>oid = hex24 (new_oid e), props = path_values ms obj,
                  createdAt = now e, updatedAt = now e\<rparr>
         in if find_doc (oid d) c \<noteq> None then Inl DuplicateKey else Inr (c @ [d], d)))"

text \<open>\<^verbatim>\<open>Model.findById(id)\<close>: the id is cast first.\<close>

definition findById :: "collection \<Rightarrow> string \<Rightarrow> exn + doc option" where
  "findById c id' =
     (case castObjectId id' of
        None \<Rightarrow> Inl (CastError ''_id'')
      | Some i \<Rightarrow> Inr (find_doc i c))"

fun delete_one :: "objectid \<Rightarrow> collection \<Rightarrow> collection" where
  "delete_one i [] = []"
| "delete_one i (d # ds) = (if oid d = i then ds else d # delete_one i ds)"

text \<open>\<^verbatim>\<open>Model.findByIdAndDelete(id)\<close>: removes the document if there is one.\<close>

definition findByIdAndDelete :: "collection \<Rightarrow> string \<Rightarrow> exn + (collection \<times> doc option)" where
  "findByIdAndDelete c id' =
     (case castObjectId id' of
        None \<Rightarrow> Inl (CastError ''_id'')
      | Some i \<Rightarrow> Inr (delete_one i c, find_doc i c))"

text \<open>
  The update document of \<^verbatim>\<open>findByIdAndUpdate\<close>: a key whose value is \<^verbatim>\<open>undefined\<close> is
  dropped (as Mongoose does from version 6 on; version 5 wrote \<^verbatim>\<open>null\<close> for it), a key
  that is no path of the schema is dropped (strict mode), every other value
  is cast to the type of its path, and a value that does not cast is a \<open>CastError\<close>. The
  validators of the schema do not run on an update.
\<close>

fun cast_update :: "mschema \<Rightarrow> jsobject \<Rightarrow> exn + (string \<times> bson) list" where
  "cast_update ms [] = Inr []"
| "cast_update ms ((k, v) # kvs) =
     (if v = JUndefined then cast_update ms kvs
      else
        (case map_of ms k of
           None \<Rightarrow> cast_update ms kvs
         | Some p \<Rightarrow>
             (case mcast (ptype p) v of
                None \<Rightarrow> Inl (CastError k)
              | Some x \<Rightarrow>
                  (case cast_update ms kvs of
                     Inl err \<Rightarrow> Inl err
                   | Inr sets \<Rightarrow> Inr ((k, x) # sets)))))"

definition apply_sets :: "(string \<times> bson) list \<Rightarrow> (string \<times> bson) list \<Rightarrow> (string \<times> bson) list" where
  "apply_sets sets fs = foldl (\<lambda>acc (k, x). AList.update k x acc) fs sets"

fun replace_one :: "objectid \<Rightarrow> doc \<Rightarrow> collection \<Rightarrow> collection" where
  "replace_one i d' [] = []"
| "replace_one i d' (d # ds) = (if oid d = i then d' # ds else d # replace_one i d' ds)"

text \<open>
  \<^verbatim>\<open>Model.findByIdAndUpdate(id, update, { new: true })\<close>: the id and the update are cast;
  the document, if there is one, gets the values set and its modification time refreshed,
  and is returned as updated.
\<close>

definition findByIdAndUpdate ::
  "mschema \<Rightarrow> env \<Rightarrow> collection \<Rightarrow> string \<Rightarrow> jsobject \<Rightarrow> exn + (collection \<times> doc option)" where
  "findByIdAndUpdate ms e c id' upd =
     (case castObjectId id' of
        None \<Rightarrow> Inl (CastError ''_id'')
      | Some i \<Rightarrow>
          (case cast_update ms upd of
             Inl err \<Rightarrow> Inl err
           | Inr sets \<Rightarrow>
               (case find_doc i c of
                  None \<Rightarrow> Inr (c, None)
                | Some d \<Rightarrow>
                    (let d' = d\<lparr>props := apply_sets sets (props d), updatedAt := now e\<rparr>
                     in Inr (replace_one i d' c, Some d')))))"

text \<open>\<^verbatim>\<open>Model.countDocuments()\<close>; it fails when the store cannot be reached.\<close>

definition countDocuments :: "bool \<Rightarrow> collection \<Rightarrow> exn + nat" where
  "countDocuments up c = (if up then Inr (length c) else Inl StoreError)"

section \<open>The nine resource modules\<close>

datatype resource =
    Patients | Providers | Appointments | Encounters | Prescriptions
  | Labs | Vitals | Inventory | Billing

subsection \<open>Validation schemas (Zod)\<close>

definition PatientCreate :: zshape where
  "PatientCreate =
     [(''name'', ZString [Min 2]),
      (''dob'', ZString [Regex date_rx]),
      (''gender'', ZOptional (ZEnum [''M'', ''F'', ''O'']))]"

definition ProviderCreate :: zshape where
  "ProviderCreate =
     [(''name'', ZString [Min 2]),
      (''specialty'', ZString [Min 2]),
      (''active'', ZOptional ZBoolean)]"

definition AppointmentCreate :: zshape where
  "AppointmentCreate =
     [(''patientId'', ZString []),
      (''providerId'', ZString []),
      (''start'', ZString [Regex datetime_rx]),
      (''end'', ZString [Regex datetime_rx]),
      (''status'', ZOptional (ZEnum [''scheduled'', ''completed'', ''cancelled'']))]"

definition EncounterCreate :: zshape where
  "EncounterCreate =
     [(''patientId'', ZString []),
      (''providerId'', ZString []),
      (''date'', ZString [Regex datetime_rx]),
      (''notes'', ZOptional (ZString []))]"

definition PrescriptionCreate :: zshape where
  "PrescriptionCreate =
     [(''patientId'', ZString []),
      (''providerId'', ZString []),
      (''medication'', ZString []),
      (''dosage'', ZString []),
      (''startDate'', ZString [Regex date_rx]),
      (''endDate'', ZString [Regex date_rx]),
      (''status'', ZOptional (ZEnum [''active'', ''completed'', ''cancelled'']))]"

definition LabCreate :: zshape where
  "LabCreate =
     [(''patientId'', ZString []),
      (''testName'', ZString []),
      (''result'', ZString []),
      (''date'', ZString [Regex date_rx])]"

definition VitalsCreate :: zshape where
  "VitalsCreate =
     [(''patientId'', ZString []),
      (''date'', ZString [Regex date_rx]),
      (''heartRate'', ZNumber [IsInt, Positive]),
      (''bloodPressure'', ZString []),
      (''temperature'', ZNumber [])]"

definition InventoryCreate :: zshape where
  "InventoryCreate =
     [(''name'', ZString []),
      (''quantity'', ZNumber [IsInt, Nonnegative]),
      (''reorderLevel'', ZOptional (ZNumber [IsInt, Nonnegative]))]"

definition BillingCreate :: zshape where
  "BillingCreate =
     [(''patientId'', ZString []),
      (''amount'', ZNumber [Positive]),
      (''status'', ZOptional (ZEnum [''unpaid'', ''paid'', ''pending''])),
      (''dueDate'', ZString [Regex date_rx])]"

fun CreateSchema :: "resource \<Rightarrow> zshape" where
  "CreateSchema Patients = PatientCreate"
| "CreateSchema Providers = ProviderCreate"
| "CreateSchema Appointments = AppointmentCreate"
| "CreateSchema Encounters = EncounterCreate"
| "CreateSchema Prescriptions = PrescriptionCreate"
| "CreateSchema Labs = LabCreate"
| "CreateSchema Vitals = VitalsCreate"
| "CreateSchema Inventory = InventoryCreate"
| "CreateSchema Billing = BillingCreate"

text \<open>Every module has \<^verbatim>\<open>const XUpdate = XCreate.partial()\<close>.\<close>

definition UpdateSchema :: "resource \<Rightarrow> zshape" where
  "UpdateSchema r = partial (CreateSchema r)"

subsection \<open>Model schemas (Mongoose)\<close>

definition req :: "mtype \<Rightarrow> mpath" where
  "req t = \<lparr>ptype = t, required = True, enum = None, dflt = None\<rparr>"

definition patientSchema :: mschema where
  "patientSchema =
     [(''name'', req MString),
      (''dob'', req MDate),
      (''gender'', \<lparr>ptype = MString, required = False, enum = Some [''M'', ''F'', ''O''],
                    dflt = Some (BStr ''O'')\<rparr>)]"

definition providerSchema :: mschema where
  "providerSchema =
     [(''name'', req MString),
      (''specialty'', req MString),
      (''active'', \<lparr>ptype = MBoolean, required = False, enum = None,
                    dflt = Some (BBool True)\<rparr>)]"

definition appointmentSchema :: mschema where
  "appointmentSchema =
     [(''patientId'', req MObjectId),
      (''providerId'', req MObjectId),
      (''start'', req MDate),
      (''end'', req MDate),
      (''status'', \<lparr>ptype = MString, required = False,
                    enum = Some [''scheduled'', ''completed'', ''cancelled''],
                    dflt = Some (BStr ''scheduled'')\<rparr>)]"

definition encounterSchema :: mschema where
  "encounterSchema =
     [(''patientId'', req MObjectId),
      (''providerId'', req MObjectId),
      (''date'', req MDate),
      (''notes'', \<lparr>ptype = MString, required = False, enum = None, dflt = Some (BStr [])\<rparr>)]"

definition prescriptionSchema :: mschema where
  "prescriptionSchema =
     [(''patientId'', req MObjectId),
      (''providerId'', req MObjectId),
      (''medication'', req MString),
      (''dosage'', req MString),
      (''startDate'', req MDate),
      (''endDate'', req MDate),
      (''status'', \<lparr>ptype = MString, required = False,
                    enum = Some [''active'', ''completed'', ''cancelled''],
                    dflt = Some (BStr ''active'')\<rparr>)]"

definition labSchema :: mschema where
  "labSchema =
     [(''patientId'', req MObjectId),
      (''testName'', req MString),
      (''result'', req MString),
      (''date'', req MDate)]"

definition vitalsSchema :: mschema where
  "vitalsSchema =
     [(''patientId'', req MObjectId),
      (''date'', req MDate),
      (''heartRate'', req MNumber),
      (''bloodPressure'', req MString),
      (''temperature'', req MNumber)]"

definition inventorySchema :: mschema where
  "inventorySchema =
     [(''name'', req MString),
      (''quantity'', req MNumber),
      (''reorderLevel'', \<lparr>ptype = MNumber, required = False, enum = None,
                          dflt = Some (BNum 0)\<rparr>)]"

definition billingSchema :: mschema where
  "billingSchema =
     [(''patientId'', req MObjectId),
      (''amount'', req MNumber),
      (''status'', \<lparr>ptype = MString, required = False,
                    enum = Some [''unpaid'', ''paid'', ''pending''],
                    dflt = Some (BStr ''unpaid'')\<rparr>),
      (''dueDate'', req MDate)]"

fun ModelSchema :: "resource \<Rightarrow> mschema" where
  "ModelSchema Patients = patientSchema"
| "ModelSchema Providers = providerSchema"
| "ModelSchema Appointments = appointmentSchema"
| "ModelSchema Encounters = encounterSchema"
| "ModelSchema Prescriptions = prescriptionSchema"
| "ModelSchema Labs = labSchema"
| "ModelSchema Vitals = vitalsSchema"
| "ModelSchema Inventory = inventorySchema"
| "ModelSchema Billing = billingSchema"

subsection \<open>The object literals of the create and update handlers\<close>

text \<open>\<^verbatim>\<open>new Date(data.k)\<close> and \<^verbatim>\<open>data.k ? new Date(data.k) : undefined\<close>.\<close>

definition date_of :: "env \<Rightarrow> jsobject \<Rightarrow> string \<Rightarrow> jsval" where
  "date_of e data k = new_Date (tza e) (prop_get data k)"

definition date_if :: "env \<Rightarrow> jsobject \<Rightarrow> string \<Rightarrow> jsval" where
  "date_if e data k = (if truthy (prop_get data k) then date_of e data k else JUndefined)"

text \<open>What each module passes to \<^verbatim>\<open>Model.create\<close>.\<close>

fun create_doc :: "resource \<Rightarrow> env \<Rightarrow> jsobject \<Rightarrow> jsobject" where
  "create_doc Patients e data =
     [(''name'', prop_get data ''name''),
      (''dob'', date_of e data ''dob''),
      (''gender'', js_or (prop_get data ''gender'') (JStr ''O''))]"
| "create_doc Providers e data = data"
| "create_doc Appointments e data =
     prop_set ''end'' (date_of e data ''end'') (prop_set ''start'' (date_of e data ''start'') data)"
| "create_doc Encounters e data = prop_set ''date'' (date_of e data ''date'') data"
| "create_doc Prescriptions e data =
     prop_set ''endDate'' (date_of e data ''endDate'')
       (prop_set ''startDate'' (date_of e data ''startDate'') data)"
| "create_doc Labs e data = prop_set ''date'' (date_of e data ''date'') data"
| "create_doc Vitals e data = prop_set ''date'' (date_of e data ''date'') data"
| "create_doc Inventory e data = data"
| "create_doc Billing e data = prop_set ''dueDate'' (date_of e data ''dueDate'') data"

text \<open>What each module passes to \<^verbatim>\<open>Model.findByIdAndUpdate\<close>.\<close>

fun update_doc :: "resource \<Rightarrow> env \<Rightarrow> jsobject \<Rightarrow> jsobject" where
  "update_doc Patients e data = prop_set ''dob'' (date_if e data ''dob'') data"
| "update_doc Providers e data = data"
| "update_doc Appointments e data =
     prop_set ''end'' (date_if e data ''end'') (prop_set ''start'' (date_if e data ''start'') data)"
| "update_doc Encounters e data = prop_set ''date'' (date_if e data ''date'') data"
| "update_doc Prescriptions e data =
     prop_set ''endDate'' (date_if e data ''endDate'')
       (prop_set ''startDate'' (date_if e data ''startDate'') data)"
| "update_doc Labs e data = prop_set ''date'' (date_if e data ''date'') data"
| "update_doc Vitals e data = prop_set ''date'' (date_if e data ''date'') data"
| "update_doc Inventory e data = data"
| "update_doc Billing e data = prop_set ''dueDate'' (date_if e data ''dueDate'') data"

subsection \<open>Responses\<close>

text \<open>
  A handler either sends a response or, when a call it awaits fails outside a
  \<^verbatim>\<open>try\<close> block, ends with the error and sends nothing itself. \<^verbatim>\<open>err.errors\<close> is the issue
  list of a Zod error and the path errors of a Mongoose validation error; the other
  errors have none, and the \<^verbatim>\<open>details\<close> of the response are then missing.
\<close>

datatype details = ZodIssues "zissue list" | PathErrors "(string \<times> vkind) list"

datatype payload =
    DocJson doc
  | ListJson "doc list"
  | CountJson nat
  | ErrorJson string "details option"
  | TotalJson nat
  | GroupsJson "(bson option \<times> rat) list"
  | NoteAdded
  | NoBody

datatype response = Response (status_of: nat) (body_of: payload)

datatype outcome = Sent response | Rejected exn

definition err_errors :: "exn \<Rightarrow> details option" where
  "err_errors err =
     (case err of
        ZodError is \<Rightarrow> Some (ZodIssues is)
      | ValidationError es \<Rightarrow> Some (PathErrors es)
      | _ \<Rightarrow> None)"

definition validation_error :: "exn \<Rightarrow> response" where
  "validation_error err = Response 400 (ErrorJson ''validation_error'' (err_errors err))"

definition not_found :: response where
  "not_found = Response 404 (ErrorJson ''not_found'' None)"

subsection \<open>The route handlers\<close>

text \<open>
  The nine modules have the same handlers, each on the collection of its own model; they
  differ in their schemas and object literals only. A handler takes the collection and
  returns it with its outcome. The store is taken to be reachable in this section.
\<close>

text \<open>\<^verbatim>\<open>router.get('/')\<close> and \<^verbatim>\<open>router.get('/count')\<close>.\<close>

definition handle_list :: "collection \<Rightarrow> outcome" where
  "handle_list c = Sent (Response 200 (ListJson c))"

definition handle_count :: "collection \<Rightarrow> outcome" where
  "handle_count c = Sent (Response 200 (CountJson (length c)))"

text \<open>\<^verbatim>\<open>router.get('/:id')\<close>: no \<^verbatim>\<open>try\<close> block.\<close>

definition handle_get :: "collection \<Rightarrow> string \<Rightarrow> outcome" where
  "handle_get c id' =
     (case findById c id' of
        Inl err \<Rightarrow> Rejected err
      | Inr None \<Rightarrow> Sent not_found
      | Inr (Some d) \<Rightarrow> Sent (Response 200 (DocJson d)))"

text \<open>
  \<^verbatim>\<open>router.post('/')\<close>: the parse and the create stand in one \<^verbatim>\<open>try\<close> block whose
  \<^verbatim>\<open>catch\<close> answers 400 for any error.
\<close>

definition handle_post :: "resource \<Rightarrow> env \<Rightarrow> collection \<Rightarrow> jsval \<Rightarrow> collection \<times> outcome" where
  "handle_post r e c body =
     (case zparse (CreateSchema r) body of
        Inl err \<Rightarrow> (c, Sent (validation_error err))
      | Inr data \<Rightarrow>
          (case Model_create (ModelSchema r) e c (create_doc r e data) of
             Inl err \<Rightarrow> (c, Sent (validation_error err))
           | Inr (c', d) \<Rightarrow> (c', Sent (Response 201 (DocJson d)))))"

text \<open>\<^verbatim>\<open>router.put('/:id')\<close>: likewise in one \<^verbatim>\<open>try\<close> block.\<close>

definition handle_put ::
  "resource \<Rightarrow> env \<Rightarrow> collection \<Rightarrow> string \<Rightarrow> jsval \<Rightarrow> collection \<times> outcome" where
  "handle_put r e c id' body =
     (case zparse (UpdateSchema r) body of
        Inl err \<Rightarrow> (c, Sent (validation_error err))
      | Inr data \<Rightarrow>
          (case findByIdAndUpdate (ModelSchema r) e c id' (update_doc r e data) of
             Inl err \<Rightarrow> (c, Sent (validation_error err))
           | Inr (c', None) \<Rightarrow> (c', Sent not_found)
           | Inr (c', Some d) \<Rightarrow> (c', Sent (Response 200 (DocJson d)))))"

text \<open>\<^verbatim>\<open>router.delete('/:id')\<close>: no \<^verbatim>\<open>try\<close> block, and the result of the call is not read.\<close>

definition handle_delete :: "collection \<Rightarrow> string \<Rightarrow> collection \<times> outcome" where
  "handle_delete c id' =
     (case findByIdAndDelete c id' of
        Inl err \<Rightarrow> (c, Rejected err)
      | Inr (c', _) \<Rightarrow> (c', Sent (Response 204 NoBody)))"

text \<open>
  \<^verbatim>\<open>router.patch('/:id/cancel')\<close> of the appointments module: no \<^verbatim>\<open>try\<close> block, no
  validation, the update is the literal \<^verbatim>\<open>{ status: 'cancelled' }\<close>.
\<close>

definition handle_cancel :: "env \<Rightarrow> collection \<Rightarrow> string \<Rightarrow> collection \<times> outcome" where
  "handle_cancel e c id' =
     (case findByIdAndUpdate appointmentSchema e c id' [(''status'', JStr ''cancelled'')] of
        Inl err \<Rightarrow> (c, Rejected err)
      | Inr (c', None) \<Rightarrow> (c', Sent not_found)
      | Inr (c', Some d) \<Rightarrow> (c', Sent (Response 200 (DocJson d))))"

text \<open>The three placeholders of every module.\<close>

definition handle_history :: "string \<Rightarrow> outcome" where
  "handle_history id' = Sent (Response 200 (ListJson []))"

definition handle_notes :: "string \<Rightarrow> jsval \<Rightarrow> outcome" where
  "handle_notes id' body = Sent (Response 200 NoteAdded)"

definition handle_related :: "string \<Rightarrow> outcome" where
  "handle_related id' = Sent (Response 200 (ListJson []))"

subsection \<open>The filter of \<^verbatim>\<open>router.get('/search')\<close>\<close>

text \<open>
  The filter object a search handler builds from the query string and passes to
  \<^verbatim>\<open>Model.find\<close>. A query parameter is a string when present (repeated and bracketed
  parameters, which the query parser turns into arrays and objects, are not modelled).
\<close>

type_synonym query = "string \<Rightarrow> string option"

datatype qcond = Equals jsval | RegexI jsval

datatype clause = Where string qcond | OrOf "(string \<times> qcond) list"

definition qparam :: "query \<Rightarrow> string \<Rightarrow> jsval" where
  "qparam q k = (case q k of None \<Rightarrow> JUndefined | Some s \<Rightarrow> JStr s)"

text \<open>\<^verbatim>\<open>if (v) where.k = cond\<close>.\<close>

definition where_if :: "jsval \<Rightarrow> string \<Rightarrow> qcond \<Rightarrow> clause list" where
  "where_if v k cond = (if truthy v then [Where k cond] else [])"

fun search_filter :: "resource \<Rightarrow> query \<Rightarrow> clause list" where
  "search_filter Patients q =
     (let term = js_or (qparam q ''term'') (JStr [])
      in [Where ''name'' (RegexI term)])"
| "search_filter Providers q =
     (let term = js_or (qparam q ''term'') (JStr [])
      in [OrOf [(''name'', RegexI term), (''specialty'', RegexI term)]])"
| "search_filter Appointments q =
     where_if (qparam q ''patientId'') ''patientId'' (Equals (qparam q ''patientId'')) @
     where_if (qparam q ''providerId'') ''providerId'' (Equals (qparam q ''providerId''))"
| "search_filter Encounters q =
     where_if (qparam q ''patientId'') ''patientId'' (Equals (qparam q ''patientId'')) @
     where_if (qparam q ''providerId'') ''providerId'' (Equals (qparam q ''providerId''))"
| "search_filter Prescriptions q =
     where_if (qparam q ''patientId'') ''patientId'' (Equals (qparam q ''patientId'')) @
     where_if (qparam q ''providerId'') ''providerId'' (Equals (qparam q ''providerId''))"
| "search_filter Labs q =
     where_if (qparam q ''patientId'') ''patientId'' (Equals (qparam q ''patientId'')) @
     where_if (qparam q ''testName'') ''testName'' (RegexI (qparam q ''testName''))"
| "search_filter Vitals q =
     where_if (qparam q ''patientId'') ''patientId'' (Equals (qparam q ''patientId''))"
| "search_filter Inventory q =
     where_if (qparam q ''name'') ''name'' (RegexI (qparam q ''name''))"
| "search_filter Billing q =
     where_if (qparam q ''patientId'') ''patientId'' (Equals (qparam q ''patientId'')) @
     where_if (qparam q ''status'') ''status'' (Equals (qparam q ''status''))"

text \<open>The document fields a filter puts a condition on.\<close>

fun clause_keys :: "clause \<Rightarrow> string list" where
  "clause_keys (Where k cond) = [k]"
| "clause_keys (OrOf alts) = map fst alts"

definition filter_keys :: "clause list \<Rightarrow> string list" where
  "filter_keys cls = concat (map clause_keys cls)"

subsection \<open>The reports module\<close>

text \<open>
  \<^verbatim>\<open>const Appointment = mongoose.models.Appointment || null\<close>: a model may be missing. A
  call to the store fails when the store cannot be reached (\<open>up\<close> is false).
\<close>

definition amount_of :: "doc \<Rightarrow> rat" where
  "amount_of d = (case map_of (props d) ''amount'' of Some (BNum x) \<Rightarrow> x | _ \<Rightarrow> 0)"

definition add_group :: "bson option \<Rightarrow> rat \<Rightarrow> (bson option \<times> rat) list \<Rightarrow> (bson option \<times> rat) list" where
  "add_group g x acc =
     (case map_of acc g of None \<Rightarrow> acc @ [(g, x)] | Some t \<Rightarrow> AList.update g (t + x) acc)"

text \<open>\<^verbatim>\<open>{ $group: { _id: '$status', total: { $sum: '$amount' } } }\<close>.\<close>

definition aggregate_status :: "bool \<Rightarrow> collection \<Rightarrow> exn + (bson option \<times> rat) list" where
  "aggregate_status up c =
     (if up then
        Inr (foldl (\<lambda>acc d. add_group (map_of (props d) ''status'') (amount_of d) acc) [] c)
      else Inl StoreError)"

definition report_appointments :: "bool \<Rightarrow> collection option \<Rightarrow> outcome" where
  "report_appointments up Appointment =
     (case (case Appointment of None \<Rightarrow> Inr 0 | Some c \<Rightarrow> countDocuments up c) of
        Inr n \<Rightarrow> Sent (Response 200 (TotalJson n))
      | Inl err \<Rightarrow> Sent (Response 200 (TotalJson 0)))"

definition report_billing :: "bool \<Rightarrow> collection option \<Rightarrow> outcome" where
  "report_billing up Billing' =
     (case (case Billing' of None \<Rightarrow> Inr [] | Some c \<Rightarrow> aggregate_status up c) of
        Inr unpaid \<Rightarrow> Sent (Response 200 (GroupsJson unpaid))
      | Inl err \<Rightarrow> Sent (Response 200 (GroupsJson [])))"

section \<open>Notions the claims are stated with\<close>

text \<open>
  A create payload violates the validation rules of a module when it is no object, or
  when some field of the schema fails at least one of its checks.
\<close>

definition violates :: "zshape \<Rightarrow> jsval \<Rightarrow> bool" where
  "violates shape body =
     (case body of JObj kvs \<Rightarrow> list_ex (\<lambda>f. field_issues kvs f \<noteq> []) shape | _ \<Rightarrow> True)"

text \<open>Strings of the two shapes the regular expressions describe.\<close>

definition digits :: "nat \<Rightarrow> string \<Rightarrow> bool" where
  "digits n s = (length s = n \<and> list_all is_digit s)"

definition date_string :: "string \<Rightarrow> string \<Rightarrow> string \<Rightarrow> string" where
  "date_string y m d = y @ ''-'' @ m @ ''-'' @ d"

definition datetime_string ::
  "string \<Rightarrow> string \<Rightarrow> string \<Rightarrow> string \<Rightarrow> string \<Rightarrow> string \<Rightarrow> string \<Rightarrow> bool \<Rightarrow> string" where
  "datetime_string y m d h mi sec ms z =
     y @ ''-'' @ m @ ''-'' @ d @ ''T'' @ h @ '':'' @ mi @ '':'' @ sec @ ''.'' @ ms @
     (if z then ''Z'' else [])"

text \<open>The paths of a module's model that hold a date.\<close>

definition date_paths :: "resource \<Rightarrow> string list" where
  "date_paths r = map fst (filter (\<lambda>(k, p). ptype p = MDate) (ModelSchema r))"

text \<open>
  The collections a module can reach from the empty one through its mutating handlers,
  with any inputs at any time.
\<close>

inductive reachable :: "resource \<Rightarrow> collection \<Rightarrow> bool" for r :: resource where
  init: "reachable r []"
| post: "reachable r c \<Longrightarrow> handle_post r e c body = (c', out) \<Longrightarrow> reachable r c'"
| put: "reachable r c \<Longrightarrow> handle_put r e c id' body = (c', out) \<Longrightarrow> reachable r c'"
| del: "reachable r c \<Longrightarrow> handle_delete c id' = (c', out) \<Longrightarrow> reachable r c'"
| cancel: "r = Appointments \<Longrightarrow> reachable r c \<Longrightarrow> handle_cancel e c id' = (c', out) \<Longrightarrow>
     reachable r c'"

text \<open>
  A document respects the enumerations of its model when every path that declares an
  \<^verbatim>\<open>enum\<close> holds a string of the declared list.
\<close>

definition enums_ok :: "resource \<Rightarrow> doc \<Rightarrow> bool" where
  "enums_ok r d =
     list_all (\<lambda>(k, p). case enum p of
                  None \<Rightarrow> True
                | Some vs \<Rightarrow> (case map_of (props d) k of
                               Some (BStr s) \<Rightarrow> s \<in> set vs
                             | _ \<Rightarrow> False))
              (ModelSchema r)"

section \<open>Basic facts about the model\<close>

subsection \<open>Objects\<close>

lemma prop_get_Nil: "prop_get [] k = JUndefined"
  by (simp add: prop_get_def)

lemma prop_get_Cons:
  "prop_get ((k, v) # obj) k' = (if k' = k then v else prop_get obj k')"
  by (simp add: prop_get_def)

lemma prop_get_defined: "prop_get obj k \<noteq> JUndefined \<Longrightarrow> k \<in> fst ` set obj"
  by (auto simp: prop_get_def split: option.splits dest!: map_of_SomeD intro: rev_image_eqI)

lemma prop_get_prop_set:
  "prop_get (prop_set k v obj) k' = (if k' = k then v else prop_get obj k')"
  by (simp add: prop_get_def prop_set_def update_conv')

lemma set_prop_set: "set (prop_set k v obj) \<subseteq> insert (k, v) (set obj)"
  unfolding prop_set_def by (induction obj) auto

subsection \<open>Collections\<close>

lemma find_doc_oid: "find_doc i c = Some d \<Longrightarrow> oid d = i"
  by (induction c) (auto simp: find_doc_def split: if_splits)

lemma find_doc_mem: "find_doc i c = Some d \<Longrightarrow> d \<in> set c"
  by (induction c) (auto simp: find_doc_def split: if_splits)

lemma find_doc_replace_one:
  "find_doc i c = Some d \<Longrightarrow> oid d' = i \<Longrightarrow> find_doc i (replace_one i d' c) = Some d'"
  by (induction c) (auto simp: find_doc_def)

lemma find_doc_append_new:
  "find_doc (oid d) c = None \<Longrightarrow> find_doc (oid d) (c @ [d]) = Some d"
  by (induction c) (auto simp: find_doc_def split: if_splits)

lemma delete_one_absent: "find_doc i c = None \<Longrightarrow> delete_one i c = c"
  by (induction c) (auto simp: find_doc_def split: if_splits)

lemma set_replace_one: "set (replace_one i d' c) \<subseteq> insert d' (set c)"
  by (induction c) auto

lemma set_delete_one: "set (delete_one i c) \<subseteq> set c"
  by (induction c) auto

subsection \<open>ObjectIds\<close>

lemma hex_digits_numeral:
  "hex_digits (numeral k) n = hex_digits (pred_numeral k) (n div 16) @ [hexdigit n]"
  unfolding numeral_eq_Suc [of k] by simp

lemma length_hex_digits: "length (hex_digits k n) = k"
  by (induction k arbitrary: n) auto

lemma hexdigit_mem: "hexdigit n \<in> set ''0123456789abcdef''"
  unfolding hexdigit_def by (rule nth_mem) simp

lemma lower_hex_canon:
  "c \<in> set ''0123456789abcdef'' \<Longrightarrow> is_hex c \<and> lower_hex c = c"
  by (auto simp: is_hex_def lower_hex_def)

lemma hex_digits_canon:
  "list_all is_hex (hex_digits k n) \<and> map lower_hex (hex_digits k n) = hex_digits k n"
  by (induction k arbitrary: n) (simp_all add: lower_hex_canon [OF hexdigit_mem])

lemma cast_hex24: "castObjectId (hex24 n) = Some (hex24 n)"
  by (simp add: castObjectId_def hex24_def length_hex_digits hex_digits_canon)

lemma hex24_255: "hex24 255 = ''0000000000000000000000ff''"
  by (simp add: hex24_def hexdigit_def hex_digits_numeral)

subsection \<open>Date strings\<close>

lemma rx_match_date_string:
  assumes "digits 4 y" "digits 2 m" "digits 2 d"
  shows "rx_match date_rx (date_string y m d)"
  using assms by (simp add: date_rx_def date_string_def digits_def)

lemma rx_match_datetime_string:
  assumes "digits 4 y" "digits 2 m" "digits 2 d" "digits 2 h" "digits 2 mi" "digits 2 sec"
    "digits 3 ms"
  shows "rx_match datetime_rx (datetime_string y m d h mi sec ms z)"
  using assms by (simp add: datetime_rx_def datetime_string_def digits_def)

lemma Date_parse_month_13: "Date_parse z ''2024-13-99'' = None"
  by (simp add: Date_parse_def legacy_day_def date_rx_def is_digit_def num_of_def Let_def)

subsection \<open>Validation schemas\<close>

lemmas create_defs = PatientCreate_def ProviderCreate_def AppointmentCreate_def
  EncounterCreate_def PrescriptionCreate_def LabCreate_def VitalsCreate_def
  InventoryCreate_def BillingCreate_def

lemma distinct_CreateSchema: "distinct (map fst (CreateSchema r))"
  by (cases r) (simp_all add: create_defs)

lemma issue_of_field:
  assumes "distinct (map fst shape)" and "f \<in> set shape"
  shows "ZodIssue code [fst f] \<in> set (concat (map (field_issues kvs) shape)) \<longleftrightarrow>
         code \<in> set (zparse_value (snd f) (prop_get kvs (fst f)))"
proof
  assume "ZodIssue code [fst f] \<in> set (concat (map (field_issues kvs) shape))"
  then obtain g where g: "g \<in> set shape" "ZodIssue code [fst f] \<in> set (field_issues kvs g)"
    by auto
  then have k: "fst g = fst f" and m: "code \<in> set (zparse_value (snd g) (prop_get kvs (fst g)))"
    by (auto simp: field_issues_def)
  from assms g(1) k have "g = f"
    by (metis eq_key_imp_eq_value prod.collapse)
  with m show "code \<in> set (zparse_value (snd f) (prop_get kvs (fst f)))" by simp
next
  assume "code \<in> set (zparse_value (snd f) (prop_get kvs (fst f)))"
  then have "ZodIssue code [fst f] \<in> set (field_issues kvs f)"
    by (auto simp: field_issues_def)
  with assms(2) show "ZodIssue code [fst f] \<in> set (concat (map (field_issues kvs) shape))"
    by auto
qed

lemma zparse_violates:
  assumes "violates shape body"
  shows "\<exists>issues. issues \<noteq> [] \<and> zparse shape body = Inl (ZodError issues) \<and>
           (\<forall>kvs. body = JObj kvs \<longrightarrow> issues = concat (map (field_issues kvs) shape))"
proof (cases body)
  case (JObj kvs)
  with assms obtain f where "f \<in> set shape" "field_issues kvs f \<noteq> []"
    by (auto simp: violates_def list_ex_iff)
  then have "concat (map (field_issues kvs) shape) \<noteq> []" by auto
  with JObj show ?thesis by (simp add: zparse_def)
qed (simp_all add: zparse_def)

lemma zparse_accepts:
  assumes "\<forall>f \<in> set shape. field_issues kvs f = []"
  shows "\<exists>data. zparse shape (JObj kvs) = Inr data"
proof -
  from assms have "concat (map (field_issues kvs) shape) = []" by simp
  then show ?thesis by (simp add: zparse_def)
qed

lemma zparse_keys:
  assumes "zparse shape (JObj kvs) = Inr data"
  shows "fst ` set data \<subseteq> fst ` set kvs"
proof -
  from assms have
    "data = filter (\<lambda>(k, v). v \<noteq> JUndefined) (map (\<lambda>(k, t). (k, prop_get kvs k)) shape)"
    by (simp add: zparse_def Let_def split: if_splits)
  then show ?thesis by (auto dest: prop_get_defined)
qed

lemma map_of_parsed:
  "map_of (filter (\<lambda>(k, v). v \<noteq> JUndefined) (map (\<lambda>(k, t). (k, g k)) shape)) k =
     (if k \<in> fst ` set shape \<and> g k \<noteq> JUndefined then Some (g k) else None)"
  by (induction shape) (auto simp: rev_image_eqI)

lemma zparse_prop_get:
  assumes "zparse shape (JObj kvs) = Inr data" and "k \<in> fst ` set shape"
  shows "prop_get data k = prop_get kvs k"
proof -
  from assms(1) have
    "data = filter (\<lambda>(k, v). v \<noteq> JUndefined) (map (\<lambda>(k, t). (k, prop_get kvs k)) shape)"
    by (simp add: zparse_def Let_def split: if_splits)
  then have "map_of data k =
     (if k \<in> fst ` set shape \<and> prop_get kvs k \<noteq> JUndefined then Some (prop_get kvs k)
      else None)"
    by (simp only: map_of_parsed)
  with assms(2) show ?thesis by (simp add: prop_get_def [of data])
qed

lemma zparse_mem:
  assumes "zparse shape (JObj kvs) = Inr data" and "(k, v) \<in> set data"
  shows "v \<noteq> JUndefined \<and> (\<exists>t. (k, t) \<in> set shape \<and> zparse_value t v = [])"
proof -
  from assms(1) have n: "concat (map (field_issues kvs) shape) = []"
    and d: "data = filter (\<lambda>(k, v). v \<noteq> JUndefined) (map (\<lambda>(k, t). (k, prop_get kvs k)) shape)"
    by (auto simp: zparse_def Let_def split: if_splits)
  from assms(2) d obtain t where t: "(k, t) \<in> set shape" and v: "v = prop_get kvs k"
    and u: "v \<noteq> JUndefined"
    by auto
  from n t have "field_issues kvs (k, t) = []" by auto
  with v have "zparse_value t v = []" by (simp add: field_issues_def)
  with t u show ?thesis by blast
qed

lemma zparse_update_empty: "zparse (UpdateSchema r) (JObj []) = Inr []"
  by (cases r)
    (simp_all add: UpdateSchema_def partial_def create_defs zparse_def field_issues_def
      prop_get_def)

lemma optional_enum_ok:
  assumes "field_issues kvs (k, ZOptional (ZEnum vs)) = []"
  shows "prop_get kvs k = JUndefined \<or> (\<exists>s \<in> set vs. prop_get kvs k = JStr s)"
  using assms by (cases "prop_get kvs k") (auto simp: field_issues_def split: if_splits)

lemma optional_enum_value:
  "zparse_value (ZOptional (ZOptional (ZEnum vs))) v = [] \<Longrightarrow> v \<noteq> JUndefined \<Longrightarrow>
     \<exists>s \<in> set vs. v = JStr s"
  by (cases v) (auto split: if_splits)

subsection \<open>Model schemas, casting and validation\<close>

lemmas model_defs = patientSchema_def providerSchema_def appointmentSchema_def
  encounterSchema_def prescriptionSchema_def labSchema_def vitalsSchema_def
  inventorySchema_def billingSchema_def

lemma distinct_ModelSchema: "distinct (map fst (ModelSchema r))"
  by (cases r) (simp_all add: model_defs)

lemma date_paths_req: "k \<in> set (date_paths r) \<Longrightarrow> (k, req MDate) \<in> set (ModelSchema r)"
  by (cases r) (auto simp: date_paths_def model_defs req_def)

lemma enum_default:
  "(k, p) \<in> set (ModelSchema r) \<Longrightarrow> enum p = Some vs \<Longrightarrow>
     ptype p = MString \<and> (\<exists>s \<in> set vs. dflt p = Some (BStr s))"
  by (cases r) (auto simp: model_defs req_def)

lemma enum_not_date:
  assumes "(k, p) \<in> set (ModelSchema r)" and "enum p = Some vs"
  shows "k \<notin> set (date_paths r)"
proof
  assume "k \<in> set (date_paths r)"
  then obtain p' where "(k, p') \<in> set (ModelSchema r)" "ptype p' = MDate"
    by (auto simp: date_paths_def)
  with assms(1) distinct_ModelSchema [of r] have "ptype p = MDate"
    by (metis eq_key_imp_eq_value)
  with enum_default [OF assms] show False by simp
qed

lemma update_enum_type:
  "(k, p) \<in> set (ModelSchema r) \<Longrightarrow> enum p = Some vs \<Longrightarrow> (k, t) \<in> set (UpdateSchema r) \<Longrightarrow>
     t = ZOptional (ZOptional (ZEnum vs))"
  by (cases r) (auto simp: model_defs req_def UpdateSchema_def partial_def create_defs)

lemma path_errors_mem:
  "(k, p) \<in> set ms \<Longrightarrow> validate_path p (prop_get obj k) = Inl err \<Longrightarrow>
     (k, err) \<in> set (path_errors ms obj)"
  by (force simp: path_errors_def)

lemma path_errors_Nil:
  "path_errors ms obj = [] \<Longrightarrow> (k, p) \<in> set ms \<Longrightarrow> \<exists>x. validate_path p (prop_get obj k) = Inr x"
  by (cases "validate_path p (prop_get obj k)") (auto simp: path_errors_def dest: path_errors_mem)

lemma path_values_keys: "fst ` set (path_values ms obj) \<subseteq> fst ` set ms"
  unfolding path_values_def
  by (force split: sum.splits option.splits)

lemma map_of_path_values:
  assumes "distinct (map fst ms)" and "(k, p) \<in> set ms"
  shows "map_of (path_values ms obj) k =
     (case validate_path p (prop_get obj k) of Inr (Some x) \<Rightarrow> Some x | _ \<Rightarrow> None)"
  using assms
proof (induction ms)
  case Nil
  then show ?case by simp
next
  case (Cons a ms)
  obtain k' p' where a: "a = (k', p')" by (cases a)
  have pv: "path_values (a # ms) obj =
      (case validate_path p' (prop_get obj k') of Inr (Some x) \<Rightarrow> [(k', x)] | _ \<Rightarrow> []) @
      path_values ms obj"
    by (simp add: path_values_def a)
  show ?case
  proof (cases "k = k'")
    case True
    with Cons.prems a have "p = p'" and "k \<notin> fst ` set ms"
      by (auto simp: rev_image_eqI)
    with path_values_keys [of ms obj] have "map_of (path_values ms obj) k = None"
      by (auto simp: map_of_eq_None_iff)
    with True \<open>p = p'\<close> show ?thesis
      unfolding pv by (auto simp: map_add_def split: sum.splits option.splits)
  next
    case False
    with Cons.prems a have "(k, p) \<in> set ms" "distinct (map fst ms)" by auto
    with Cons.IH have "map_of (path_values ms obj) k =
      (case validate_path p (prop_get obj k) of Inr (Some x) \<Rightarrow> Some x | _ \<Rightarrow> None)"
      by simp
    with False show ?thesis
      unfolding pv by (auto simp: map_add_def split: sum.splits option.splits)
  qed
qed

lemma validate_invalid_date: "validate_path (req MDate) (JDate None) = Inl cast_failed"
  by (simp add: validate_path_def req_def mcast_def)

lemma validate_enum:
  assumes "enum p = Some vs" and "\<exists>s \<in> set vs. dflt p = Some (BStr s)"
    and "validate_path p v = Inr x"
  shows "\<exists>s \<in> set vs. x = Some (BStr s)"
proof (cases "v = JUndefined")
  case True
  with assms(2,3) show ?thesis by (auto simp: validate_path_def)
next
  case False
  with assms(1,3) obtain y where y: "mcast (ptype p) v = Some y"
    by (auto simp: validate_path_def split: option.splits)
  with False assms(1) have "validate_path p v =
      (if required p \<and> y = BStr [] then Inl required_kind
       else case y of BStr s \<Rightarrow> (if s \<in> set vs then Inr (Some y) else Inl enum_kind)
            | _ \<Rightarrow> Inl enum_kind)"
    by (simp add: validate_path_def)
  with assms(3) show ?thesis
    by (cases y) (auto split: if_splits)
qed

lemma appointment_status_valid:
  assumes "v = JUndefined \<or> (\<exists>s \<in> set [''scheduled'', ''completed'', ''cancelled'']. v = JStr s)"
  shows "\<exists>st. validate_path
           \<lparr>ptype = MString, required = False,
             enum = Some [''scheduled'', ''completed'', ''cancelled''],
             dflt = Some (BStr ''scheduled'')\<rparr> v = Inr (Some st)"
  using assms by (auto simp: validate_path_def mcast_def)

lemma cast_update_cancel:
  "cast_update appointmentSchema [(''status'', JStr ''cancelled'')] =
     Inr [(''status'', BStr ''cancelled'')]"
  by (simp add: appointmentSchema_def mcast_def)

lemma cast_update_keys:
  "cast_update ms upd = Inr sets \<Longrightarrow>
     fst ` set sets \<subseteq> {k. \<exists>v. (k, v) \<in> set upd \<and> v \<noteq> JUndefined}"
proof (induction upd arbitrary: sets)
  case Nil
  then show ?case by simp
next
  case (Cons kv upd)
  obtain k v where kv: "kv = (k, v)" by (cases kv)
  show ?case
  proof (cases "v = JUndefined \<or> map_of ms k = None")
    case True
    with Cons.prems have "cast_update ms upd = Inr sets"
      unfolding kv by (auto split: if_splits)
    from Cons.IH [OF this] show ?thesis unfolding kv by auto
  next
    case False
    with Cons.prems obtain x rest where
      r: "cast_update ms upd = Inr rest" "sets = (k, x) # rest"
      unfolding kv by (auto split: option.splits sum.splits)
    from Cons.IH [OF r(1)] False show ?thesis unfolding kv r(2) by auto
  qed
qed

lemma cast_update_mem:
  "cast_update ms upd = Inr sets \<Longrightarrow> (k, x) \<in> set sets \<Longrightarrow>
     \<exists>v p. (k, v) \<in> set upd \<and> v \<noteq> JUndefined \<and> map_of ms k = Some p \<and>
           mcast (ptype p) v = Some x"
proof (induction upd arbitrary: sets)
  case Nil
  then show ?case by simp
next
  case (Cons kv upd)
  obtain k' v' where kv: "kv = (k', v')" by (cases kv)
  show ?case
  proof (cases "v' = JUndefined \<or> map_of ms k' = None")
    case True
    with Cons.prems(1) have "cast_update ms upd = Inr sets"
      unfolding kv by (auto split: if_splits)
    from Cons.IH [OF this Cons.prems(2)] show ?thesis by auto
  next
    case False
    then obtain p' where p': "map_of ms k' = Some p'" by auto
    with False Cons.prems(1) obtain x' rest where
      r: "mcast (ptype p') v' = Some x'" "cast_update ms upd = Inr rest"
         "sets = (k', x') # rest"
      unfolding kv by (auto split: option.splits sum.splits)
    show ?thesis
    proof (cases "(k, x) = (k', x')")
      case True
      with False p' r(1) show ?thesis unfolding kv by auto
    next
      case False
      with Cons.prems(2) r(3) have "(k, x) \<in> set rest" by auto
      from Cons.IH [OF r(2) this] show ?thesis by auto
    qed
  qed
qed

lemma apply_sets_other:
  "k \<notin> fst ` set sets \<Longrightarrow> map_of (apply_sets sets fs) k = map_of fs k"
  unfolding apply_sets_def
  by (induction sets arbitrary: fs) (auto simp: update_conv')

lemma apply_sets_pred:
  assumes "\<forall>x. (k, x) \<in> set sets \<longrightarrow> Q x" and "\<exists>y. map_of fs k = Some y \<and> Q y"
  shows "\<exists>y. map_of (apply_sets sets fs) k = Some y \<and> Q y"
  using assms unfolding apply_sets_def
proof (induction sets arbitrary: fs)
  case Nil
  then show ?case by simp
next
  case (Cons a sets)
  obtain k' x' where a: "a = (k', x')" by (cases a)
  have "\<exists>y. map_of (AList.update k' x' fs) k = Some y \<and> Q y"
    using Cons.prems unfolding a by (auto simp: update_conv')
  moreover have "\<forall>x. (k, x) \<in> set sets \<longrightarrow> Q x" using Cons.prems(1) by auto
  ultimately show ?case
    unfolding a using Cons.IH [of "AList.update k' x' fs"] by simp
qed

subsection \<open>The object literals\<close>

lemma create_doc_date:
  "k \<in> set (date_paths r) \<Longrightarrow> prop_get (create_doc r e data) k = date_of e data k"
  by (cases r) (auto simp: date_paths_def model_defs req_def prop_get_prop_set prop_get_Cons)

lemma date_if_defined: "date_if e data k \<noteq> JUndefined \<Longrightarrow> k \<in> fst ` set data"
proof -
  assume "date_if e data k \<noteq> JUndefined"
  then have "truthy (prop_get data k)" by (simp add: date_if_def split: if_splits)
  then have "prop_get data k \<noteq> JUndefined" by auto
  then show ?thesis by (rule prop_get_defined)
qed

lemma defined_keys_prop_set:
  assumes "\<forall>k v. (k, v) \<in> set obj \<and> v \<noteq> JUndefined \<longrightarrow> k \<in> fst ` set data"
  shows "\<forall>k v. (k, v) \<in> set (prop_set k' (date_if e data k') obj) \<and> v \<noteq> JUndefined \<longrightarrow>
           k \<in> fst ` set data"
proof (intro allI impI)
  fix k v
  assume a: "(k, v) \<in> set (prop_set k' (date_if e data k') obj) \<and> v \<noteq> JUndefined"
  then have "(k, v) = (k', date_if e data k') \<or> (k, v) \<in> set obj"
    using set_prop_set [of k' "date_if e data k'" obj] by auto
  then show "k \<in> fst ` set data"
  proof
    assume "(k, v) = (k', date_if e data k')"
    with a show ?thesis using date_if_defined [of e data k'] by auto
  next
    assume "(k, v) \<in> set obj"
    with a assms show ?thesis by blast
  qed
qed

lemma defined_keys_data:
  "\<forall>k v. (k, v) \<in> set data \<and> v \<noteq> JUndefined \<longrightarrow> k \<in> fst ` set data"
  by (auto intro: rev_image_eqI)

lemma update_doc_defined:
  "\<forall>k v. (k, v) \<in> set (update_doc r e data) \<and> v \<noteq> JUndefined \<longrightarrow> k \<in> fst ` set data"
  by (cases r; simp only: update_doc.simps; intro defined_keys_prop_set defined_keys_data)

lemma update_doc_empty: "cast_update ms (update_doc r e []) = Inr []"
  by (cases r) (simp_all add: prop_set_def date_if_def prop_get_def)

lemma update_doc_mem:
  "(k, v) \<in> set (update_doc r e data) \<Longrightarrow> (k, v) \<in> set data \<or> k \<in> set (date_paths r)"
  by (cases r)
    (auto simp: date_paths_def model_defs req_def dest!: subsetD [OF set_prop_set])

subsection \<open>What a handler has done when it answers\<close>

lemma post_created:
  assumes "handle_post r e c body = (c', Sent (Response 201 (DocJson d)))"
  shows "c' = c @ [d] \<and> oid d = hex24 (new_oid e) \<and> find_doc (oid d) c = None"
proof -
  from assms obtain data where z: "zparse (CreateSchema r) body = Inr data"
    by (auto simp: handle_post_def validation_error_def split: sum.splits)
  from assms z have
    m: "Model_create (ModelSchema r) e c (create_doc r e data) = Inr (c', d)"
    by (auto simp: handle_post_def validation_error_def split: sum.splits)
  then show ?thesis
    by (auto simp: Model_create_def Let_def split: if_splits)
qed

lemma post_invalid_date:
  assumes "zparse (CreateSchema r) body = Inr data"
    and "k \<in> set (date_paths r)"
    and "prop_get data k = JStr s"
    and "Date_parse (tza e) s = None"
  shows "\<exists>errs. (k, cast_failed) \<in> set errs \<and>
           handle_post r e c body =
             (c, Sent (Response 400 (ErrorJson ''validation_error'' (Some (PathErrors errs)))))"
proof -
  let ?obj = "create_doc r e data"
  have "prop_get ?obj k = JDate None"
    using assms(2-4) by (simp add: create_doc_date date_of_def new_Date_def)
  then have "validate_path (req MDate) (prop_get ?obj k) = Inl cast_failed"
    by (simp add: validate_invalid_date)
  with date_paths_req [OF assms(2)] have
    m: "(k, cast_failed) \<in> set (path_errors (ModelSchema r) ?obj)"
    by (rule path_errors_mem)
  then have "path_errors (ModelSchema r) ?obj \<noteq> []" by auto
  then have "handle_post r e c body =
      (c, Sent (Response 400 (ErrorJson ''validation_error''
            (Some (PathErrors (path_errors (ModelSchema r) ?obj))))))"
    using assms(1)
    by (simp add: handle_post_def Model_create_def validation_error_def err_errors_def)
  with m show ?thesis by blast
qed

lemma create_appointment:
  assumes z: "zparse AppointmentCreate (JObj kvs) = Inr data"
    and st: "field_issues kvs (''status'', ZOptional (ZEnum [''scheduled'', ''completed'', ''cancelled''])) = []"
    and p: "prop_get kvs ''patientId'' = JStr p" "castObjectId p = Some p'"
    and q: "prop_get kvs ''providerId'' = JStr q" "castObjectId q = Some q'"
    and s: "prop_get kvs ''start'' = JStr s" "Date_parse (tza e) s = Some ts"
    and t: "prop_get kvs ''end'' = JStr t" "Date_parse (tza e) t = Some te"
    and fresh: "find_doc (hex24 (new_oid e)) c = None"
  shows "\<exists>d. handle_post Appointments e c (JObj kvs) = (c @ [d], Sent (Response 201 (DocJson d))) \<and>
           map_of (props d) ''start'' = Some (BDate ts) \<and>
           map_of (props d) ''end'' = Some (BDate te)"
proof -
  let ?obj = "create_doc Appointments e data"
  have g: "prop_get data ''patientId'' = JStr p" "prop_get data ''providerId'' = JStr q"
    "prop_get data ''start'' = JStr s" "prop_get data ''end'' = JStr t"
    "prop_get data ''status'' = prop_get kvs ''status''"
    using p(1) q(1) s(1) t(1)
    by (simp_all add: zparse_prop_get [OF z] AppointmentCreate_def)
  have o: "prop_get ?obj ''patientId'' = JStr p" "prop_get ?obj ''providerId'' = JStr q"
    "prop_get ?obj ''start'' = JDate (Some ts)" "prop_get ?obj ''end'' = JDate (Some te)"
    "prop_get ?obj ''status'' = prop_get kvs ''status''"
    using g s(2) t(2) by (simp_all add: prop_get_prop_set date_of_def new_Date_def)
  from appointment_status_valid [OF optional_enum_ok [OF st]] obtain sv where
    sv: "validate_path
           \<lparr>ptype = MString, required = False,
             enum = Some [''scheduled'', ''completed'', ''cancelled''],
             dflt = Some (BStr ''scheduled'')\<rparr> (prop_get kvs ''status'') = Inr (Some sv)"
    by blast
  have v: "validate_path (req MObjectId) (JStr p) = Inr (Some (BOid p'))"
    "validate_path (req MObjectId) (JStr q) = Inr (Some (BOid q'))"
    "validate_path (req MDate) (JDate (Some ts)) = Inr (Some (BDate ts))"
    "validate_path (req MDate) (JDate (Some te)) = Inr (Some (BDate te))"
    using p(2) q(2) by (simp_all add: validate_path_def req_def mcast_def)
  have e: "path_errors appointmentSchema ?obj = []"
    by (simp add: path_errors_def appointmentSchema_def o v sv del: create_doc.simps)
  have w: "path_values appointmentSchema ?obj =
      [(''patientId'', BOid p'), (''providerId'', BOid q'), (''start'', BDate ts),
       (''end'', BDate te), (''status'', sv)]"
    by (simp add: path_values_def appointmentSchema_def o v sv del: create_doc.simps)
  show ?thesis
    using z fresh
    by (simp add: handle_post_def Model_create_def e w Let_def del: create_doc.simps)
qed

lemma date_paths_rule:
  "k \<in> set (date_paths r) \<Longrightarrow>
     (k, ZString [Regex date_rx]) \<in> set (CreateSchema r) \<or>
     (k, ZString [Regex datetime_rx]) \<in> set (CreateSchema r)"
  by (cases r) (auto simp: date_paths_def model_defs create_defs req_def)

lemma create_patient:
  assumes z: "zparse PatientCreate (JObj kvs) = Inr data"
    and s: "prop_get kvs ''dob'' = JStr s" "Date_parse (tza e) s = Some t"
    and fresh: "find_doc (hex24 (new_oid e)) c = None"
  shows "\<exists>d. handle_post Patients e c (JObj kvs) = (c @ [d], Sent (Response 201 (DocJson d))) \<and>
           map_of (props d) ''dob'' = Some (BDate t)"
proof -
  let ?obj = "create_doc Patients e data"
  from z have i: "concat (map (field_issues kvs) PatientCreate) = []"
    by (simp add: zparse_def Let_def split: if_splits)
  then have "zparse_value (ZString [Min 2]) (prop_get kvs ''name'') = []"
    by (simp add: PatientCreate_def field_issues_def)
  then have "\<exists>n. prop_get kvs ''name'' = JStr n \<and> 2 \<le> length n"
    by (cases "prop_get kvs ''name''") (simp_all split: if_splits)
  then obtain n where n: "prop_get kvs ''name'' = JStr n" and l: "2 \<le> length n"
    by blast
  from l have ne: "n \<noteq> []" by auto
  from i have "field_issues kvs (''gender'', ZOptional (ZEnum [''M'', ''F'', ''O''])) = []"
    by (simp add: PatientCreate_def)
  from optional_enum_ok [OF this] obtain g where
    g: "js_or (prop_get kvs ''gender'') (JStr ''O'') = JStr g" "g \<in> set [''M'', ''F'', ''O'']"
    by (auto simp: js_or_def)
  have d: "prop_get data ''name'' = JStr n" "prop_get data ''dob'' = JStr s"
    "prop_get data ''gender'' = prop_get kvs ''gender''"
    using n s(1) by (simp_all add: zparse_prop_get [OF z] PatientCreate_def)
  have o: "prop_get ?obj ''name'' = JStr n" "prop_get ?obj ''dob'' = JDate (Some t)"
    "prop_get ?obj ''gender'' = JStr g"
    using d s(2) g(1) by (simp_all add: prop_get_Cons date_of_def new_Date_def)
  have v: "validate_path (req MString) (JStr n) = Inr (Some (BStr n))"
    "validate_path (req MDate) (JDate (Some t)) = Inr (Some (BDate t))"
    "validate_path
       \<lparr>ptype = MString, required = False, enum = Some [''M'', ''F'', ''O''],
         dflt = Some (BStr ''O'')\<rparr> (JStr g) = Inr (Some (BStr g))"
    using ne g(2) by (auto simp: validate_path_def req_def mcast_def)
  have e: "path_errors patientSchema ?obj = []"
    by (simp add: path_errors_def patientSchema_def o v del: create_doc.simps)
  have w: "path_values patientSchema ?obj =
      [(''name'', BStr n), (''dob'', BDate t), (''gender'', BStr g)]"
    by (simp add: path_values_def patientSchema_def o v del: create_doc.simps)
  show ?thesis
    using z fresh
    by (simp add: handle_post_def Model_create_def e w Let_def del: create_doc.simps)
qed

lemma put_success:
  assumes "handle_put r e c id' (JObj kvs) = (c', Sent (Response 200 (DocJson d')))"
    and "castObjectId id' = Some i" and "find_doc i c = Some d"
  shows "\<exists>sets. fst ` set sets \<subseteq> fst ` set kvs \<and>
           d' = d\<lparr>props := apply_sets sets (props d), updatedAt := now e\<rparr> \<and>
           c' = replace_one i d' c"
proof -
  from assms(1) obtain data where z: "zparse (UpdateSchema r) (JObj kvs) = Inr data"
    by (auto simp: handle_put_def validation_error_def split: sum.splits)
  from assms z obtain sets where
    s: "cast_update (ModelSchema r) (update_doc r e data) = Inr sets"
    by (auto simp: handle_put_def validation_error_def findByIdAndUpdate_def
        split: sum.splits)
  from assms z s have
    d': "d' = d\<lparr>props := apply_sets sets (props d), updatedAt := now e\<rparr>"
    and c': "c' = replace_one i d' c"
    by (auto simp: handle_put_def findByIdAndUpdate_def Let_def)
  have "fst ` set sets \<subseteq> fst ` set data"
    using cast_update_keys [OF s] update_doc_defined [of r e data] by blast
  with zparse_keys [OF z] have "fst ` set sets \<subseteq> fst ` set kvs" by blast
  with d' c' show ?thesis by blast
qed

lemma put_cases:
  assumes "handle_put r e c id' body = (c', out)"
  shows "c' = c \<or>
     (\<exists>kvs data sets i d. zparse (UpdateSchema r) (JObj kvs) = Inr data \<and>
        cast_update (ModelSchema r) (update_doc r e data) = Inr sets \<and>
        find_doc i c = Some d \<and>
        c' = replace_one i (d\<lparr>props := apply_sets sets (props d), updatedAt := now e\<rparr>) c)"
proof (cases "zparse (UpdateSchema r) body")
  case (Inl err)
  with assms show ?thesis by (simp add: handle_put_def)
next
  case (Inr data)
  then obtain kvs where b: "body = JObj kvs"
    by (cases body) (simp_all add: zparse_def)
  show ?thesis
  proof (cases "findByIdAndUpdate (ModelSchema r) e c id' (update_doc r e data)")
    case (Inl err)
    with assms Inr show ?thesis by (simp add: handle_put_def)
  next
    case f: (Inr res)
    then obtain i sets where
      i: "castObjectId id' = Some i"
      and sets: "cast_update (ModelSchema r) (update_doc r e data) = Inr sets"
      by (auto simp: findByIdAndUpdate_def split: option.splits sum.splits)
    show ?thesis
    proof (cases "find_doc i c")
      case None
      with assms Inr i sets show ?thesis
        by (simp add: handle_put_def findByIdAndUpdate_def)
    next
      case (Some d)
      with assms Inr i sets have
        "c' = replace_one i (d\<lparr>props := apply_sets sets (props d), updatedAt := now e\<rparr>) c"
        by (auto simp: handle_put_def findByIdAndUpdate_def Let_def)
      with Inr sets Some b show ?thesis by blast
    qed
  qed
qed

subsection \<open>Two requests, evaluated\<close>

lemma zparse_jane:
  "zparse (CreateSchema Patients)
     (JObj [(''name'', JStr ''Jane Doe''), (''dob'', JStr ''1990-05-01'')]) =
   Inr [(''name'', JStr ''Jane Doe''), (''dob'', JStr ''1990-05-01'')]"
  by (simp add: zparse_def PatientCreate_def field_issues_def prop_get_def date_rx_def
      is_digit_def)

lemma create_jane:
  "Model_create (ModelSchema Patients) \<lparr>now = 5, new_oid = 255, tza = (\<lambda>t. 0)\<rparr> []
     (create_doc Patients \<lparr>now = 5, new_oid = 255, tza = (\<lambda>t. 0)\<rparr>
        [(''name'', JStr ''Jane Doe''), (''dob'', JStr ''1990-05-01'')]) =
   Inr ([\<lparr>oid = ''0000000000000000000000ff'',
          props = [(''name'', BStr ''Jane Doe''), (''dob'', BDate 641520000000),
                   (''gender'', BStr ''O'')],
          createdAt = 5, updatedAt = 5\<rparr>],
        \<lparr>oid = ''0000000000000000000000ff'',
          props = [(''name'', BStr ''Jane Doe''), (''dob'', BDate 641520000000),
                   (''gender'', BStr ''O'')],
          createdAt = 5, updatedAt = 5\<rparr>)"
  by (simp add: prop_get_def date_rx_def is_digit_def Model_create_def patientSchema_def
      req_def path_errors_def path_values_def validate_path_def mcast_def date_of_def
      new_Date_def Date_parse_def num_of_def MakeDate_def MakeDay_def MakeTime_def js_or_def
      hex24_255 find_doc_def Let_def)

lemma post_jane:
  "handle_post Patients \<lparr>now = 5, new_oid = 255, tza = (\<lambda>t. 0)\<rparr> []
     (JObj [(''name'', JStr ''Jane Doe''), (''dob'', JStr ''1990-05-01'')]) =
   ([\<lparr>oid = ''0000000000000000000000ff'',
      props = [(''name'', BStr ''Jane Doe''), (''dob'', BDate 641520000000),
               (''gender'', BStr ''O'')],
      createdAt = 5, updatedAt = 5\<rparr>],
    Sent (Response 201 (DocJson
      \<lparr>oid = ''0000000000000000000000ff'',
        props = [(''name'', BStr ''Jane Doe''), (''dob'', BDate 641520000000),
                 (''gender'', BStr ''O'')],
        createdAt = 5, updatedAt = 5\<rparr>)))"
  by (simp add: handle_post_def zparse_def PatientCreate_def field_issues_def prop_get_def
      date_rx_def is_digit_def Model_create_def patientSchema_def req_def path_errors_def
      path_values_def validate_path_def mcast_def date_of_def new_Date_def Date_parse_def
      num_of_def MakeDate_def MakeDay_def MakeTime_def js_or_def hex24_255 find_doc_def
      Let_def)

lemma zparse_month_13:
  "zparse (CreateSchema Patients)
     (JObj [(''name'', JStr ''Jane Doe''), (''dob'', JStr ''2024-13-99'')]) =
   Inr [(''name'', JStr ''Jane Doe''), (''dob'', JStr ''2024-13-99'')]"
  by (simp add: zparse_def PatientCreate_def field_issues_def prop_get_def date_rx_def
      is_digit_def)

lemma post_month_13:
  "handle_post Patients \<lparr>now = 5, new_oid = 255, tza = (\<lambda>t. 0)\<rparr> []
     (JObj [(''name'', JStr ''Jane Doe''), (''dob'', JStr ''2024-13-99'')]) =
   ([], Sent (Response 400 (ErrorJson ''validation_error''
          (Some (PathErrors [(''dob'', cast_failed)])))))"
  using zparse_month_13
  by (simp add: handle_post_def prop_get_def Model_create_def patientSchema_def req_def
      path_errors_def validate_path_def mcast_def date_of_def new_Date_def
      Date_parse_month_13 js_or_def validation_error_def err_errors_def Let_def)

lemma zparse_legacy_date:
  "zparse (CreateSchema Patients)
     (JObj [(''name'', JStr ''Jane Doe''), (''dob'', JStr ''0004-13-12'')]) =
   Inr [(''name'', JStr ''Jane Doe''), (''dob'', JStr ''0004-13-12'')]"
  by (simp add: zparse_def PatientCreate_def field_issues_def prop_get_def date_rx_def
      is_digit_def)

lemma Date_parse_legacy_date: "Date_parse (\<lambda>t. 0) ''0004-13-12'' = Some 1334275200000"
  by (simp add: Date_parse_def legacy_day_def date_rx_def is_digit_def num_of_def
      MakeDate_def MakeDay_def Let_def)

lemma post_legacy_date:
  "handle_post Patients \<lparr>now = 5, new_oid = 255, tza = (\<lambda>t. 0)\<rparr> []
     (JObj [(''name'', JStr ''Jane Doe''), (''dob'', JStr ''0004-13-12'')]) =
   ([\<lparr>oid = ''0000000000000000000000ff'',
      props = [(''name'', BStr ''Jane Doe''), (''dob'', BDate 1334275200000),
               (''gender'', BStr ''O'')],
      createdAt = 5, updatedAt = 5\<rparr>],
    Sent (Response 201 (DocJson
      \<lparr>oid = ''0000000000000000000000ff'',
        props = [(''name'', BStr ''Jane Doe''), (''dob'', BDate 1334275200000),
                 (''gender'', BStr ''O'')],
        createdAt = 5, updatedAt = 5\<rparr>)))"
  using zparse_legacy_date
  by (simp add: handle_post_def prop_get_def Model_create_def patientSchema_def req_def
      path_errors_def path_values_def validate_path_def mcast_def date_of_def new_Date_def
      Date_parse_legacy_date js_or_def hex24_255 find_doc_def Let_def)

section \<open>Create with an invalid payload\<close>

text \<open>
  Claim C1. For every module and every create payload that violates a validation rule,
  the create handler answers 400 \<^verbatim>\<open>validation_error\<close>, writes nothing (the collection is
  returned as it was), and the details hold every violation found, not only the first:
  for an object body, an issue with a field's path and a code is in the list exactly when
  the field's value fails the check with that code.
\<close>

theorem create_invalid_reports_all:
  assumes "violates (CreateSchema r) body"
  shows "\<exists>issues. issues \<noteq> [] \<and>
           handle_post r e c body =
             (c, Sent (Response 400 (ErrorJson ''validation_error'' (Some (ZodIssues issues))))) \<and>
           (\<forall>kvs. body = JObj kvs \<longrightarrow>
              (\<forall>f \<in> set (CreateSchema r). \<forall>code.
                 ZodIssue code [fst f] \<in> set issues \<longleftrightarrow>
                 code \<in> set (zparse_value (snd f) (prop_get kvs (fst f)))))"
proof -
  from zparse_violates [OF assms] obtain issues where
    i: "issues \<noteq> []" "zparse (CreateSchema r) body = Inl (ZodError issues)"
       "\<forall>kvs. body = JObj kvs \<longrightarrow> issues = concat (map (field_issues kvs) (CreateSchema r))"
    by blast
  have "handle_post r e c body =
          (c, Sent (Response 400 (ErrorJson ''validation_error'' (Some (ZodIssues issues)))))"
    using i(2) by (simp add: handle_post_def validation_error_def err_errors_def)
  moreover have "\<forall>kvs. body = JObj kvs \<longrightarrow>
              (\<forall>f \<in> set (CreateSchema r). \<forall>code.
                 ZodIssue code [fst f] \<in> set issues \<longleftrightarrow>
                 code \<in> set (zparse_value (snd f) (prop_get kvs (fst f))))"
    using i(3) issue_of_field [OF distinct_CreateSchema] by blast
  ultimately show ?thesis using i(1) by blast
qed

theorem create_invalid_reports_all_witness:
  "violates (CreateSchema Appointments) (JObj [(''status'', JStr ''done''), (''end'', JStr ''soon'')]) \<and>
   handle_post Appointments \<lparr>now = 5, new_oid = 0, tza = (\<lambda>t. 0)\<rparr> []
     (JObj [(''status'', JStr ''done''), (''end'', JStr ''soon'')]) =
   ([], Sent (Response 400 (ErrorJson ''validation_error'' (Some (ZodIssues
      [ZodIssue invalid_type [''patientId''], ZodIssue invalid_type [''providerId''],
       ZodIssue invalid_type [''start''], ZodIssue invalid_string [''end''],
       ZodIssue invalid_enum_value [''status'']])))))"
proof -
  have v: "violates (CreateSchema Appointments)
             (JObj [(''status'', JStr ''done''), (''end'', JStr ''soon'')])"
    by (simp add: violates_def AppointmentCreate_def field_issues_def prop_get_def)
  have z: "zparse (CreateSchema Appointments)
             (JObj [(''status'', JStr ''done''), (''end'', JStr ''soon'')]) =
           Inl (ZodError [ZodIssue invalid_type [''patientId''], ZodIssue invalid_type [''providerId''],
       ZodIssue invalid_type [''start''], ZodIssue invalid_string [''end''],
       ZodIssue invalid_enum_value [''status'']])"
    by (simp add: zparse_def AppointmentCreate_def field_issues_def prop_get_def datetime_rx_def)
  from create_invalid_reports_all [OF v, of "\<lparr>now = 5, new_oid = 0, tza = (\<lambda>t. 0)\<rparr>" "[]"]
  show ?thesis using v z
    by (auto simp: handle_post_def validation_error_def err_errors_def)
qed

section \<open>The search filters\<close>

text \<open>
  Claim C2, as stated: a recognized query parameter that is absent is left out of the
  filter, and a patients or providers search without \<^verbatim>\<open>term\<close> has no condition on the
  name or the specialty. The two handlers read \<^verbatim>\<open>req.query.term || ''\<close>: with no
  \<^verbatim>\<open>term\<close> the filter still holds the regular-expression conditions, with the empty
  string as the pattern.
\<close>

theorem search_absent_term_defaults:
  "(Map.empty :: query) ''term'' = None \<and>
   search_filter Patients Map.empty = [Where ''name'' (RegexI (JStr []))] \<and>
   search_filter Providers Map.empty =
     [OrOf [(''name'', RegexI (JStr [])), (''specialty'', RegexI (JStr []))]]"
  by (simp add: qparam_def js_or_def Let_def)

text \<open>
  Claim C2, amended: in the seven modules other than patients and providers, a query
  parameter that is absent (or empty) puts no condition on its field into the filter. The
  patients and providers filters always hold the case-insensitive regular-expression
  condition on the name (and, for providers, the specialty), whose pattern is \<^verbatim>\<open>term\<close>, or
  the empty string when \<^verbatim>\<open>term\<close> is absent.
\<close>

theorem search_filter_of_absent:
  "(r \<noteq> Patients \<and> r \<noteq> Providers \<longrightarrow>
      (\<forall>k. q k = None \<or> q k = Some [] \<longrightarrow> k \<notin> set (filter_keys (search_filter r q)))) \<and>
   search_filter Patients q =
     [Where ''name'' (RegexI (JStr (case q ''term'' of None \<Rightarrow> [] | Some t \<Rightarrow> t)))] \<and>
   search_filter Providers q =
     [OrOf [(''name'', RegexI (JStr (case q ''term'' of None \<Rightarrow> [] | Some t \<Rightarrow> t))),
            (''specialty'', RegexI (JStr (case q ''term'' of None \<Rightarrow> [] | Some t \<Rightarrow> t)))]]"
proof -
  have "k \<notin> set (filter_keys (search_filter r q))"
    if "r \<noteq> Patients" "r \<noteq> Providers" "q k = None \<or> q k = Some []" for k
    using that by (cases r) (auto simp: filter_keys_def where_if_def qparam_def)
  moreover have "js_or (qparam q ''term'') (JStr []) =
      JStr (case q ''term'' of None \<Rightarrow> [] | Some t \<Rightarrow> t)"
    by (simp add: js_or_def qparam_def split: option.splits)
  ultimately show ?thesis by (simp add: Let_def)
qed

theorem search_filter_of_absent_witness:
  "Labs \<noteq> Patients \<and> Labs \<noteq> Providers \<and>
   (Map.empty(''patientId'' \<mapsto> ''0000000000000000000000ff'')) ''testName'' = None \<and>
   search_filter Labs (Map.empty(''patientId'' \<mapsto> ''0000000000000000000000ff'')) =
     [Where ''patientId'' (Equals (JStr ''0000000000000000000000ff''))] \<and>
   ''testName'' \<notin> set (filter_keys
      (search_filter Labs (Map.empty(''patientId'' \<mapsto> ''0000000000000000000000ff''))))"
  using search_filter_of_absent
    [of Labs "Map.empty(''patientId'' \<mapsto> ''0000000000000000000000ff'')"]
  by (simp add: qparam_def where_if_def Let_def)

section \<open>Update\<close>

text \<open>
  Claim C3. For every module and every id of an existing document, an update with the
  empty payload answers 200 with the document unchanged but for its modification time,
  and stores it so. More generally, whenever an update answers with a document, the
  \<^verbatim>\<open>_id\<close>, the creation time and every field that is no key of the payload are as they
  were before.
\<close>

theorem update_keeps_unspecified_fields:
  assumes "castObjectId id' = Some i" and "find_doc i c = Some d"
  shows "handle_put r e c id' (JObj []) =
           (replace_one i (d\<lparr>updatedAt := now e\<rparr>) c,
            Sent (Response 200 (DocJson (d\<lparr>updatedAt := now e\<rparr>)))) \<and>
         find_doc i (replace_one i (d\<lparr>updatedAt := now e\<rparr>) c) = Some (d\<lparr>updatedAt := now e\<rparr>) \<and>
         (\<forall>kvs c' d'.
            handle_put r e c id' (JObj kvs) = (c', Sent (Response 200 (DocJson d'))) \<longrightarrow>
            oid d' = oid d \<and> createdAt d' = createdAt d \<and>
            (\<forall>k. k \<notin> fst ` set kvs \<longrightarrow> map_of (props d') k = map_of (props d) k))"
proof (intro conjI allI impI)
  show "handle_put r e c id' (JObj []) =
           (replace_one i (d\<lparr>updatedAt := now e\<rparr>) c,
            Sent (Response 200 (DocJson (d\<lparr>updatedAt := now e\<rparr>))))"
    using assms
    by (simp add: handle_put_def zparse_update_empty findByIdAndUpdate_def update_doc_empty
        apply_sets_def Let_def)
  show "find_doc i (replace_one i (d\<lparr>updatedAt := now e\<rparr>) c) = Some (d\<lparr>updatedAt := now e\<rparr>)"
    using assms(2) find_doc_oid [OF assms(2)] by (intro find_doc_replace_one) simp_all
next
  fix kvs c' d'
  assume "handle_put r e c id' (JObj kvs) = (c', Sent (Response 200 (DocJson d')))"
  from put_success [OF this assms] obtain sets where
    s: "fst ` set sets \<subseteq> fst ` set kvs"
       "d' = d\<lparr>props := apply_sets sets (props d), updatedAt := now e\<rparr>"
    by blast
  show "oid d' = oid d" "createdAt d' = createdAt d" using s(2) by simp_all
  fix k
  assume "k \<notin> fst ` set kvs"
  with s(1) have "k \<notin> fst ` set sets" by blast
  then show "map_of (props d') k = map_of (props d) k"
    using s(2) by (simp add: apply_sets_other)
qed

theorem update_keeps_unspecified_fields_witness:
  "castObjectId ''0000000000000000000000ff'' = Some ''0000000000000000000000ff'' \<and>
   find_doc ''0000000000000000000000ff''
     [\<lparr>oid = ''0000000000000000000000ff'',
       props = [(''name'', BStr ''Ann Lee''), (''specialty'', BStr ''ENT''), (''active'', BBool True)],
       createdAt = 1, updatedAt = 2\<rparr>] =
     Some \<lparr>oid = ''0000000000000000000000ff'',
       props = [(''name'', BStr ''Ann Lee''), (''specialty'', BStr ''ENT''), (''active'', BBool True)],
       createdAt = 1, updatedAt = 2\<rparr> \<and>
   handle_put Providers \<lparr>now = 5, new_oid = 0, tza = (\<lambda>t. 0)\<rparr>
     [\<lparr>oid = ''0000000000000000000000ff'',
       props = [(''name'', BStr ''Ann Lee''), (''specialty'', BStr ''ENT''), (''active'', BBool True)],
       createdAt = 1, updatedAt = 2\<rparr>]
     ''0000000000000000000000ff'' (JObj []) =
   ([\<lparr>oid = ''0000000000000000000000ff'',
      props = [(''name'', BStr ''Ann Lee''), (''specialty'', BStr ''ENT''), (''active'', BBool True)],
      createdAt = 1, updatedAt = 5\<rparr>],
    Sent (Response 200 (DocJson
      \<lparr>oid = ''0000000000000000000000ff'',
        props = [(''name'', BStr ''Ann Lee''), (''specialty'', BStr ''ENT''), (''active'', BBool True)],
        createdAt = 1, updatedAt = 5\<rparr>)))"
proof -
  have h: "castObjectId ''0000000000000000000000ff'' = Some ''0000000000000000000000ff''"
    by (simp add: castObjectId_def is_hex_def lower_hex_def)
  have f: "find_doc ''0000000000000000000000ff''
     [\<lparr>oid = ''0000000000000000000000ff'',
       props = [(''name'', BStr ''Ann Lee''), (''specialty'', BStr ''ENT''), (''active'', BBool True)],
       createdAt = 1, updatedAt = 2\<rparr>] =
     Some \<lparr>oid = ''0000000000000000000000ff'',
       props = [(''name'', BStr ''Ann Lee''), (''specialty'', BStr ''ENT''), (''active'', BBool True)],
       createdAt = 1, updatedAt = 2\<rparr>"
    by (simp add: find_doc_def)
  show ?thesis
    using h f update_keeps_unspecified_fields [OF h f, of Providers
        "\<lparr>now = 5, new_oid = 0, tza = (\<lambda>t. 0)\<rparr>"]
    by simp
qed

section \<open>Delete\<close>

text \<open>
  Claim C4, as stated: for every id the delete handler answers 204. It does not for an
  id that is no ObjectId: the cast of the id fails inside \<^verbatim>\<open>findByIdAndDelete\<close>, the handler
  has no \<^verbatim>\<open>try\<close> block, and no response is sent by it.
\<close>

theorem delete_malformed_id_rejected:
  "handle_delete [] ''abc'' = ([], Rejected (CastError ''_id''))"
  by (simp add: handle_delete_def findByIdAndDelete_def castObjectId_def)

text \<open>
  Claim C4, amended: for every id that is a well-formed ObjectId, whether a document has
  it or not, the delete handler answers 204 with no body; when no document has the id, the
  collection is left as it was.
\<close>

theorem delete_well_formed_id:
  assumes "castObjectId id' = Some i"
  shows "handle_delete c id' = (delete_one i c, Sent (Response 204 NoBody)) \<and>
         (find_doc i c = None \<longrightarrow> delete_one i c = c)"
  using assms by (simp add: handle_delete_def findByIdAndDelete_def delete_one_absent)

theorem delete_well_formed_id_witness:
  "castObjectId ''0000000000000000000000FF'' = Some ''0000000000000000000000ff'' \<and>
   handle_delete
     [\<lparr>oid = ''0000000000000000000000aa'', props = [], createdAt = 0, updatedAt = 0\<rparr>]
     ''0000000000000000000000FF'' =
   ([\<lparr>oid = ''0000000000000000000000aa'', props = [], createdAt = 0, updatedAt = 0\<rparr>],
    Sent (Response 204 NoBody))"
proof -
  have h: "castObjectId ''0000000000000000000000FF'' = Some ''0000000000000000000000ff''"
    by (simp add: castObjectId_def is_hex_def lower_hex_def)
  show ?thesis
    using h delete_well_formed_id [OF h,
        of "[\<lparr>oid = ''0000000000000000000000aa'', props = [], createdAt = 0, updatedAt = 0\<rparr>]"]
    by (simp add: find_doc_def)
qed

section \<open>Cancelling an appointment\<close>

text \<open>
  Claim C5, as stated: for every appointment id the cancel handler answers with the
  cancelled appointment or with 404. It does neither for an id that is no ObjectId: no
  document has that id, and still the answer is not 404, because the cast of the id fails
  inside \<^verbatim>\<open>findByIdAndUpdate\<close> and the handler has no \<^verbatim>\<open>try\<close> block.
\<close>

theorem cancel_malformed_id_rejected:
  "handle_cancel \<lparr>now = 5, new_oid = 0, tza = (\<lambda>t. 0)\<rparr> [] ''abc'' =
     ([], Rejected (CastError ''_id''))"
  by (simp add: handle_cancel_def findByIdAndUpdate_def castObjectId_def)

text \<open>
  Claim C5, amended: for every appointment id that is a well-formed ObjectId, if a
  document has the id, its status is set to \<^verbatim>\<open>cancelled\<close> whatever it was before (nothing
  is validated and the prior status is not read), its modification time is refreshed, and
  the updated document is stored and returned with 200; if no document has the id, the
  answer is 404 \<^verbatim>\<open>not_found\<close> and the collection is unchanged.
\<close>

theorem cancel_well_formed_id:
  assumes "castObjectId id' = Some i"
  shows "(\<forall>d. find_doc i c = Some d \<longrightarrow>
            (\<exists>d'. d' = d\<lparr>props := AList.update ''status'' (BStr ''cancelled'') (props d),
                           updatedAt := now e\<rparr> \<and>
                  handle_cancel e c id' = (replace_one i d' c, Sent (Response 200 (DocJson d'))) \<and>
                  map_of (props d') ''status'' = Some (BStr ''cancelled'') \<and>
                  find_doc i (replace_one i d' c) = Some d')) \<and>
         (find_doc i c = None \<longrightarrow> handle_cancel e c id' = (c, Sent not_found))"
  using assms
  by (auto simp: handle_cancel_def findByIdAndUpdate_def cast_update_cancel apply_sets_def
      update_conv' find_doc_oid Let_def simp del: cast_update.simps
      intro!: find_doc_replace_one)

theorem cancel_well_formed_id_witness:
  "castObjectId ''0000000000000000000000ff'' = Some ''0000000000000000000000ff'' \<and>
   handle_cancel \<lparr>now = 5, new_oid = 0, tza = (\<lambda>t. 0)\<rparr>
     [\<lparr>oid = ''0000000000000000000000ff'', props = [(''status'', BStr ''completed'')],
       createdAt = 1, updatedAt = 2\<rparr>]
     ''0000000000000000000000ff'' =
   ([\<lparr>oid = ''0000000000000000000000ff'', props = [(''status'', BStr ''cancelled'')],
      createdAt = 1, updatedAt = 5\<rparr>],
    Sent (Response 200 (DocJson
      \<lparr>oid = ''0000000000000000000000ff'', props = [(''status'', BStr ''cancelled'')],
        createdAt = 1, updatedAt = 5\<rparr>))) \<and>
   handle_cancel \<lparr>now = 5, new_oid = 0, tza = (\<lambda>t. 0)\<rparr> []
     ''0000000000000000000000ff'' = ([], Sent not_found)"
proof -
  have h: "castObjectId ''0000000000000000000000ff'' = Some ''0000000000000000000000ff''"
    by (simp add: castObjectId_def is_hex_def lower_hex_def)
  show ?thesis
    using h
      cancel_well_formed_id [OF h,
        of "[\<lparr>oid = ''0000000000000000000000ff'', props = [(''status'', BStr ''completed'')],
              createdAt = 1, updatedAt = 2\<rparr>]" "\<lparr>now = 5, new_oid = 0, tza = (\<lambda>t. 0)\<rparr>"]
      cancel_well_formed_id [OF h, of "[]" "\<lparr>now = 5, new_oid = 0, tza = (\<lambda>t. 0)\<rparr>"]
    by (simp add: find_doc_def)
qed

section \<open>An appointment that ends before it starts\<close>

text \<open>
  Claim C6, as stated: every appointment payload whose fields satisfy the per-field
  rules of the validation schema is created, also when it ends before it starts. The
  validation schema takes any string as \<^verbatim>\<open>patientId\<close> and \<^verbatim>\<open>providerId\<close>; the model casts
  both to ObjectIds, and a payload that passes validation with a string that is no
  ObjectId is answered 400 and not created.
\<close>

theorem appointment_bad_reference_rejected:
  "zparse AppointmentCreate
     (JObj [(''patientId'', JStr ''abc''), (''providerId'', JStr ''abc''),
            (''start'', JStr ''2024-01-02T10:00:00.000Z''),
            (''end'', JStr ''2024-01-01T10:00:00.000Z'')]) =
   Inr [(''patientId'', JStr ''abc''), (''providerId'', JStr ''abc''),
        (''start'', JStr ''2024-01-02T10:00:00.000Z''),
        (''end'', JStr ''2024-01-01T10:00:00.000Z'')] \<and>
   Date_parse (\<lambda>t. 0) ''2024-01-01T10:00:00.000Z'' = Some 1704103200000 \<and>
   Date_parse (\<lambda>t. 0) ''2024-01-02T10:00:00.000Z'' = Some 1704189600000 \<and>
   handle_post Appointments \<lparr>now = 5, new_oid = 255, tza = (\<lambda>t. 0)\<rparr> []
     (JObj [(''patientId'', JStr ''abc''), (''providerId'', JStr ''abc''),
            (''start'', JStr ''2024-01-02T10:00:00.000Z''),
            (''end'', JStr ''2024-01-01T10:00:00.000Z'')]) =
   ([], Sent (Response 400 (ErrorJson ''validation_error''
      (Some (PathErrors [(''patientId'', cast_failed), (''providerId'', cast_failed)])))))"
proof -
  have z: "zparse AppointmentCreate
     (JObj [(''patientId'', JStr ''abc''), (''providerId'', JStr ''abc''),
            (''start'', JStr ''2024-01-02T10:00:00.000Z''),
            (''end'', JStr ''2024-01-01T10:00:00.000Z'')]) =
   Inr [(''patientId'', JStr ''abc''), (''providerId'', JStr ''abc''),
        (''start'', JStr ''2024-01-02T10:00:00.000Z''),
        (''end'', JStr ''2024-01-01T10:00:00.000Z'')]"
    by (simp add: zparse_def AppointmentCreate_def field_issues_def prop_get_def
        datetime_rx_def is_digit_def)
  have d: "Date_parse (\<lambda>t. 0) ''2024-01-01T10:00:00.000Z'' = Some 1704103200000"
    "Date_parse (\<lambda>t. 0) ''2024-01-02T10:00:00.000Z'' = Some 1704189600000"
    by (simp_all add: Date_parse_def date_rx_def datetime_rx_def is_digit_def num_of_def
        MakeDate_def MakeDay_def MakeTime_def Let_def)
  show ?thesis
    using z d
    by (simp add: handle_post_def Model_create_def appointmentSchema_def req_def
        path_errors_def validate_path_def mcast_def castObjectId_def prop_get_def
        prop_set_def date_of_def new_Date_def validation_error_def err_errors_def Let_def)
qed

text \<open>
  Claim C6, amended: for the appointment create operation, every payload whose fields
  individually satisfy the rules of the validation schema, whose \<^verbatim>\<open>patientId\<close> and
  \<^verbatim>\<open>providerId\<close> are well-formed ObjectIds, and whose end is a date-time earlier than its
  start, is accepted by validation, and the appointment is created (under the new
  \<^verbatim>\<open>_id\<close> the driver generates) with that start and that end: nothing compares the two.
\<close>

theorem appointment_end_before_start_created:
  assumes "\<forall>f \<in> set AppointmentCreate. field_issues kvs f = []"
    and "prop_get kvs ''patientId'' = JStr p" "castObjectId p = Some p'"
    and "prop_get kvs ''providerId'' = JStr q" "castObjectId q = Some q'"
    and "prop_get kvs ''start'' = JStr s" "Date_parse (tza e) s = Some ts"
    and "prop_get kvs ''end'' = JStr t" "Date_parse (tza e) t = Some te"
    and "te < ts"
    and "find_doc (hex24 (new_oid e)) c = None"
  shows "\<exists>data d. zparse AppointmentCreate (JObj kvs) = Inr data \<and>
           handle_post Appointments e c (JObj kvs) =
             (c @ [d], Sent (Response 201 (DocJson d))) \<and>
           map_of (props d) ''start'' = Some (BDate ts) \<and>
           map_of (props d) ''end'' = Some (BDate te)"
proof -
  from zparse_accepts [OF assms(1)] obtain data where
    z: "zparse AppointmentCreate (JObj kvs) = Inr data" by blast
  from assms(1) have
    st: "field_issues kvs (''status'', ZOptional (ZEnum [''scheduled'', ''completed'', ''cancelled''])) = []"
    by (simp add: AppointmentCreate_def)
  from create_appointment [OF z st assms(2-9) assms(11)] z show ?thesis by blast
qed

theorem appointment_end_before_start_created_witness:
  "list_all (\<lambda>f. field_issues
       [(''patientId'', JStr ''00000000000000000000000a''),
        (''providerId'', JStr ''00000000000000000000000b''),
        (''start'', JStr ''2024-01-02T10:00:00.000Z''),
        (''end'', JStr ''2024-01-01T10:00:00.000Z'')] f = []) AppointmentCreate \<and>
   castObjectId ''00000000000000000000000a'' = Some ''00000000000000000000000a'' \<and>
   castObjectId ''00000000000000000000000b'' = Some ''00000000000000000000000b'' \<and>
   Date_parse (\<lambda>t. 0) ''2024-01-02T10:00:00.000Z'' = Some 1704189600000 \<and>
   Date_parse (\<lambda>t. 0) ''2024-01-01T10:00:00.000Z'' = Some 1704103200000 \<and>
   (1704103200000 :: int) < 1704189600000 \<and>
   handle_post Appointments \<lparr>now = 5, new_oid = 255, tza = (\<lambda>t. 0)\<rparr> []
     (JObj [(''patientId'', JStr ''00000000000000000000000a''),
            (''providerId'', JStr ''00000000000000000000000b''),
            (''start'', JStr ''2024-01-02T10:00:00.000Z''),
            (''end'', JStr ''2024-01-01T10:00:00.000Z'')]) =
   ([\<lparr>oid = ''0000000000000000000000ff'',
      props = [(''patientId'', BOid ''00000000000000000000000a''),
               (''providerId'', BOid ''00000000000000000000000b''),
               (''start'', BDate 1704189600000), (''end'', BDate 1704103200000),
               (''status'', BStr ''scheduled'')],
      createdAt = 5, updatedAt = 5\<rparr>],
    Sent (Response 201 (DocJson
      \<lparr>oid = ''0000000000000000000000ff'',
        props = [(''patientId'', BOid ''00000000000000000000000a''),
                 (''providerId'', BOid ''00000000000000000000000b''),
                 (''start'', BDate 1704189600000), (''end'', BDate 1704103200000),
                 (''status'', BStr ''scheduled'')],
        createdAt = 5, updatedAt = 5\<rparr>)))"
proof -
  let ?kvs = "[(''patientId'', JStr ''00000000000000000000000a''),
        (''providerId'', JStr ''00000000000000000000000b''),
        (''start'', JStr ''2024-01-02T10:00:00.000Z''),
        (''end'', JStr ''2024-01-01T10:00:00.000Z'')]"
  let ?e = "\<lparr>now = 5, new_oid = 255, tza = (\<lambda>t. 0)\<rparr>"
  have f: "list_all (\<lambda>f. field_issues ?kvs f = []) AppointmentCreate"
    by (simp add: AppointmentCreate_def field_issues_def prop_get_def datetime_rx_def
        is_digit_def)
  then have a: "\<forall>f \<in> set AppointmentCreate. field_issues ?kvs f = []"
    by (simp only: list_all_iff)
  have g: "prop_get ?kvs ''patientId'' = JStr ''00000000000000000000000a''"
    "prop_get ?kvs ''providerId'' = JStr ''00000000000000000000000b''"
    "prop_get ?kvs ''start'' = JStr ''2024-01-02T10:00:00.000Z''"
    "prop_get ?kvs ''end'' = JStr ''2024-01-01T10:00:00.000Z''"
    by (simp_all add: prop_get_def)
  have i: "castObjectId ''00000000000000000000000a'' = Some ''00000000000000000000000a''"
    "castObjectId ''00000000000000000000000b'' = Some ''00000000000000000000000b''"
    by (simp_all add: castObjectId_def is_hex_def lower_hex_def)
  have d: "Date_parse (tza ?e) ''2024-01-02T10:00:00.000Z'' = Some 1704189600000"
    "Date_parse (tza ?e) ''2024-01-01T10:00:00.000Z'' = Some 1704103200000"
    by (simp_all add: Date_parse_def date_rx_def datetime_rx_def is_digit_def num_of_def
        MakeDate_def MakeDay_def MakeTime_def Let_def)
  have l: "(1704103200000 :: int) < 1704189600000" by simp
  have n: "find_doc (hex24 (new_oid ?e)) [] = None" by (simp add: find_doc_def)
  from appointment_end_before_start_created
    [OF a g(1) i(1) g(2) i(2) g(3) d(1) g(4) d(2) l n]
  obtain data dd where
    r: "handle_post Appointments ?e [] (JObj ?kvs) = ([] @ [dd], Sent (Response 201 (DocJson dd)))"
    by blast
  have "handle_post Appointments ?e [] (JObj ?kvs) =
   ([\<lparr>oid = ''0000000000000000000000ff'',
      props = [(''patientId'', BOid ''00000000000000000000000a''),
               (''providerId'', BOid ''00000000000000000000000b''),
               (''start'', BDate 1704189600000), (''end'', BDate 1704103200000),
               (''status'', BStr ''scheduled'')],
      createdAt = 5, updatedAt = 5\<rparr>],
    Sent (Response 201 (DocJson
      \<lparr>oid = ''0000000000000000000000ff'',
        props = [(''patientId'', BOid ''00000000000000000000000a''),
                 (''providerId'', BOid ''00000000000000000000000b''),
                 (''start'', BDate 1704189600000), (''end'', BDate 1704103200000),
                 (''status'', BStr ''scheduled'')],
        createdAt = 5, updatedAt = 5\<rparr>)))"
    using d i
    by (simp add: handle_post_def zparse_def AppointmentCreate_def field_issues_def
        prop_get_def datetime_rx_def is_digit_def Model_create_def appointmentSchema_def
        req_def path_errors_def path_values_def validate_path_def mcast_def prop_set_def
        date_of_def new_Date_def hex24_255 find_doc_def Let_def)
  with r f i d l show ?thesis by simp
qed

section \<open>Enumerated fields stay in their declared sets\<close>

lemma enums_ok_iff:
  "enums_ok r d \<longleftrightarrow>
     (\<forall>k p vs. (k, p) \<in> set (ModelSchema r) \<and> enum p = Some vs \<longrightarrow>
        (\<exists>s \<in> set vs. map_of (props d) k = Some (BStr s)))"
proof -
  have "(case enum p of None \<Rightarrow> True
         | Some vs \<Rightarrow> (case map_of (props d) k of Some (BStr s) \<Rightarrow> s \<in> set vs | _ \<Rightarrow> False)) \<longleftrightarrow>
        (\<forall>vs. enum p = Some vs \<longrightarrow> (\<exists>s \<in> set vs. map_of (props d) k = Some (BStr s)))"
    for k and p :: mpath
    by (auto split: option.splits bson.splits)
  then show ?thesis
    unfolding enums_ok_def list_all_iff by (auto split: prod.splits)
qed

lemma created_enums_ok:
  assumes "Model_create (ModelSchema r) e c obj = Inr (c', d)"
  shows "c' = c @ [d] \<and> enums_ok r d"
proof -
  from assms have n: "path_errors (ModelSchema r) obj = []"
    and d: "props d = path_values (ModelSchema r) obj" and c': "c' = c @ [d]"
    by (auto simp: Model_create_def Let_def split: if_splits)
  have "\<exists>s \<in> set vs. map_of (props d) k = Some (BStr s)"
    if kp: "(k, p) \<in> set (ModelSchema r)" and en: "enum p = Some vs" for k p vs
  proof -
    from path_errors_Nil [OF n kp] obtain x where
      x: "validate_path p (prop_get obj k) = Inr x" by blast
    from validate_enum [OF en _ x] enum_default [OF kp en] obtain s where
      "s \<in> set vs" "x = Some (BStr s)" by blast
    with x show ?thesis
      unfolding d map_of_path_values [OF distinct_ModelSchema kp] by auto
  qed
  with c' show ?thesis by (auto simp: enums_ok_iff)
qed

lemma post_enums_ok:
  assumes "handle_post r e c body = (c', out)" and "list_all (enums_ok r) c"
  shows "list_all (enums_ok r) c'"
  using assms
  by (auto simp: handle_post_def split: sum.splits dest!: created_enums_ok)

lemma update_sets_enum:
  assumes z: "zparse (UpdateSchema r) (JObj kvs) = Inr data"
    and c: "cast_update (ModelSchema r) (update_doc r e data) = Inr sets"
    and kp: "(k, p) \<in> set (ModelSchema r)" and en: "enum p = Some vs"
    and m: "(k, x) \<in> set sets"
  shows "\<exists>s \<in> set vs. x = BStr s"
proof -
  from cast_update_mem [OF c m] obtain v p' where
    v: "(k, v) \<in> set (update_doc r e data)" "v \<noteq> JUndefined"
       "map_of (ModelSchema r) k = Some p'" "mcast (ptype p') v = Some x"
    by blast
  from v(3) kp distinct_ModelSchema [of r] have "p' = p" by simp
  with v(4) enum_default [OF kp en] have x: "mcast MString v = Some x" by simp
  from update_doc_mem [OF v(1)] enum_not_date [OF kp en] have "(k, v) \<in> set data" by blast
  from zparse_mem [OF z this] obtain t where
    t: "(k, t) \<in> set (UpdateSchema r)" "zparse_value t v = []" by blast
  from update_enum_type [OF kp en t(1)] t(2) v(2) obtain s where
    "s \<in> set vs" "v = JStr s"
    using optional_enum_value by blast
  with x show ?thesis by (auto simp: mcast_def)
qed

lemma updated_enums_ok:
  assumes z: "zparse (UpdateSchema r) (JObj kvs) = Inr data"
    and c: "cast_update (ModelSchema r) (update_doc r e data) = Inr sets"
    and ok: "enums_ok r d"
  shows "enums_ok r (d\<lparr>props := apply_sets sets (props d), updatedAt := t\<rparr>)"
proof -
  have "\<exists>s \<in> set vs. map_of (apply_sets sets (props d)) k = Some (BStr s)"
    if kp: "(k, p) \<in> set (ModelSchema r)" and en: "enum p = Some vs" for k p vs
  proof -
    from ok [unfolded enums_ok_iff] kp en
    have "\<exists>y. map_of (props d) k = Some y \<and> (\<exists>s \<in> set vs. y = BStr s)"
      by blast
    moreover have "\<forall>x. (k, x) \<in> set sets \<longrightarrow> (\<exists>s \<in> set vs. x = BStr s)"
      using update_sets_enum [OF z c kp en] by blast
    ultimately have
      "\<exists>y. map_of (apply_sets sets (props d)) k = Some y \<and> (\<exists>s \<in> set vs. y = BStr s)"
      by (intro apply_sets_pred)
    then show ?thesis by blast
  qed
  then show ?thesis by (auto simp: enums_ok_iff)
qed

lemma put_enums_ok:
  assumes "handle_put r e c id' body = (c', out)" and "list_all (enums_ok r) c"
  shows "list_all (enums_ok r) c'"
proof -
  from put_cases [OF assms(1)] show ?thesis
  proof
    assume "c' = c"
    with assms(2) show ?thesis by simp
  next
    assume "\<exists>kvs data sets i d. zparse (UpdateSchema r) (JObj kvs) = Inr data \<and>
        cast_update (ModelSchema r) (update_doc r e data) = Inr sets \<and>
        find_doc i c = Some d \<and>
        c' = replace_one i (d\<lparr>props := apply_sets sets (props d), updatedAt := now e\<rparr>) c"
    then obtain kvs data sets i d where
      z: "zparse (UpdateSchema r) (JObj kvs) = Inr data"
      and s: "cast_update (ModelSchema r) (update_doc r e data) = Inr sets"
      and f: "find_doc i c = Some d"
      and c': "c' = replace_one i (d\<lparr>props := apply_sets sets (props d), updatedAt := now e\<rparr>) c"
      by blast
    from find_doc_mem [OF f] assms(2) have "enums_ok r d" by (simp add: list_all_iff)
    from updated_enums_ok [OF z s this]
    have "enums_ok r (d\<lparr>props := apply_sets sets (props d), updatedAt := now e\<rparr>)" .
    with assms(2) set_replace_one show ?thesis
      unfolding c' list_all_iff by blast
  qed
qed

lemma delete_enums_ok:
  assumes "handle_delete c id' = (c', out)" and "list_all (enums_ok r) c"
  shows "list_all (enums_ok r) c'"
proof -
  from assms(1) have "set c' \<subseteq> set c"
    using set_delete_one
    by (auto simp: handle_delete_def findByIdAndDelete_def split: option.splits)
  with assms(2) show ?thesis unfolding list_all_iff by blast
qed

lemma cancelled_enums_ok:
  assumes "enums_ok Appointments d"
  shows "enums_ok Appointments
           (d\<lparr>props := AList.update ''status'' (BStr ''cancelled'') (props d), updatedAt := t\<rparr>)"
  using assms by (simp add: enums_ok_def appointmentSchema_def req_def update_conv')

lemma cancel_enums_ok:
  assumes "handle_cancel e c id' = (c', out)" and "list_all (enums_ok Appointments) c"
  shows "list_all (enums_ok Appointments) c'"
proof (cases "castObjectId id'")
  case None
  with assms show ?thesis by (simp add: handle_cancel_def findByIdAndUpdate_def)
next
  case (Some i)
  show ?thesis
  proof (cases "find_doc i c")
    case None
    with assms Some show ?thesis
      by (simp add: handle_cancel_def findByIdAndUpdate_def cast_update_cancel
          del: cast_update.simps)
  next
    case d: (Some d)
    with assms(1) Some have
      c': "c' = replace_one i
         (d\<lparr>props := AList.update ''status'' (BStr ''cancelled'') (props d), updatedAt := now e\<rparr>) c"
      by (auto simp: handle_cancel_def findByIdAndUpdate_def cast_update_cancel apply_sets_def
          Let_def simp del: cast_update.simps)
    from find_doc_mem [OF d] assms(2) have "enums_ok Appointments d"
      by (simp add: list_all_iff)
    from cancelled_enums_ok [OF this] assms(2) set_replace_one show ?thesis
      unfolding c' list_all_iff by blast
  qed
qed

text \<open>
  Claim C7. In every collection a module can reach from the empty one through create,
  update, delete and (for appointments) cancel, every document holds in each enumerated
  field a value of the declared set: create and update check the value against the set,
  a missing value takes the declared default, and cancel writes \<^verbatim>\<open>cancelled\<close>, which is in
  the set.
\<close>

theorem enum_fields_in_declared_set:
  assumes "reachable r c"
  shows "list_all (enums_ok r) c"
  using assms
proof (induction rule: reachable.induct)
  case init
  show ?case by simp
next
  case (post c e body c' out)
  from post.hyps(2) post.IH show ?case by (rule post_enums_ok)
next
  case (put c e id' body c' out)
  from put.hyps(2) put.IH show ?case by (rule put_enums_ok)
next
  case (del c id' c' out)
  from del.hyps(2) del.IH show ?case by (rule delete_enums_ok)
next
  case (cancel c e id' c' out)
  from cancel.hyps(3) cancel.IH show ?case
    unfolding cancel.hyps(1) by (rule cancel_enums_ok)
qed

theorem enum_fields_in_declared_set_witness:
  "reachable Patients
     [\<lparr>oid = ''0000000000000000000000ff'',
       props = [(''name'', BStr ''Jane Doe''), (''dob'', BDate 641520000000),
                (''gender'', BStr ''O'')],
       createdAt = 5, updatedAt = 5\<rparr>] \<and>
   list_all (enums_ok Patients)
     [\<lparr>oid = ''0000000000000000000000ff'',
       props = [(''name'', BStr ''Jane Doe''), (''dob'', BDate 641520000000),
                (''gender'', BStr ''O'')],
       createdAt = 5, updatedAt = 5\<rparr>]"
proof -
  have "reachable Patients
     [\<lparr>oid = ''0000000000000000000000ff'',
       props = [(''name'', BStr ''Jane Doe''), (''dob'', BDate 641520000000),
                (''gender'', BStr ''O'')],
       createdAt = 5, updatedAt = 5\<rparr>]"
    by (rule reachable.post [OF reachable.init post_jane])
  from this enum_fields_in_declared_set [OF this] show ?thesis by simp
qed

section \<open>Create, then read\<close>

text \<open>
  Claim C8. For every module and every create payload that passes validation and whose
  document the model accepts, create answers 201 with the stored record, and reading the
  id that the record carries answers 200 with a record equal to it in the \<^verbatim>\<open>_id\<close>, every
  field and both timestamps.
\<close>

theorem create_then_get_by_id:
  assumes "zparse (CreateSchema r) body = Inr data"
    and "Model_create (ModelSchema r) e c (create_doc r e data) = Inr (c', d)"
  shows "handle_post r e c body = (c', Sent (Response 201 (DocJson d))) \<and>
         handle_get c' (oid d) = Sent (Response 200 (DocJson d))"
proof -
  have p: "handle_post r e c body = (c', Sent (Response 201 (DocJson d)))"
    using assms by (simp add: handle_post_def)
  from post_created [OF p] have
    q: "c' = c @ [d]" "oid d = hex24 (new_oid e)" "find_doc (oid d) c = None"
    by blast+
  have "castObjectId (oid d) = Some (oid d)" unfolding q(2) by (rule cast_hex24)
  moreover have "find_doc (oid d) c' = Some d"
    unfolding q(1) using q(3) by (rule find_doc_append_new)
  ultimately show ?thesis using p by (simp add: handle_get_def findById_def)
qed

theorem create_then_get_by_id_witness:
  "zparse (CreateSchema Patients)
     (JObj [(''name'', JStr ''Jane Doe''), (''dob'', JStr ''1990-05-01'')]) =
   Inr [(''name'', JStr ''Jane Doe''), (''dob'', JStr ''1990-05-01'')] \<and>
   handle_post Patients \<lparr>now = 5, new_oid = 255, tza = (\<lambda>t. 0)\<rparr> []
     (JObj [(''name'', JStr ''Jane Doe''), (''dob'', JStr ''1990-05-01'')]) =
   ([\<lparr>oid = ''0000000000000000000000ff'',
      props = [(''name'', BStr ''Jane Doe''), (''dob'', BDate 641520000000),
               (''gender'', BStr ''O'')],
      createdAt = 5, updatedAt = 5\<rparr>],
    Sent (Response 201 (DocJson
      \<lparr>oid = ''0000000000000000000000ff'',
        props = [(''name'', BStr ''Jane Doe''), (''dob'', BDate 641520000000),
                 (''gender'', BStr ''O'')],
        createdAt = 5, updatedAt = 5\<rparr>))) \<and>
   handle_get
     [\<lparr>oid = ''0000000000000000000000ff'',
      props = [(''name'', BStr ''Jane Doe''), (''dob'', BDate 641520000000),
               (''gender'', BStr ''O'')],
      createdAt = 5, updatedAt = 5\<rparr>]
     ''0000000000000000000000ff'' =
   Sent (Response 200 (DocJson
      \<lparr>oid = ''0000000000000000000000ff'',
        props = [(''name'', BStr ''Jane Doe''), (''dob'', BDate 641520000000),
                 (''gender'', BStr ''O'')],
        createdAt = 5, updatedAt = 5\<rparr>))"
  using zparse_jane create_then_get_by_id [OF zparse_jane create_jane] by simp

section \<open>The reports degrade to empty results\<close>

text \<open>
  Claim C9. \<^verbatim>\<open>GET /reports/appointments\<close> and \<^verbatim>\<open>GET /reports/billing\<close> always answer 200:
  with the count, or the totals per status, when the model is there and the store
  answers, and with \<^verbatim>\<open>{total: 0}\<close>, or \<^verbatim>\<open>[]\<close>, when the model is missing or the call to
  the store fails. There is no error response.
\<close>

theorem reports_degrade_to_empty:
  "(\<exists>n. report_appointments up A = Sent (Response 200 (TotalJson n))) \<and>
   (\<exists>g. report_billing up B = Sent (Response 200 (GroupsJson g))) \<and>
   (A = None \<or> \<not> up \<longrightarrow> report_appointments up A = Sent (Response 200 (TotalJson 0))) \<and>
   (B = None \<or> \<not> up \<longrightarrow> report_billing up B = Sent (Response 200 (GroupsJson [])))"
  by (auto simp: report_appointments_def report_billing_def countDocuments_def
      aggregate_status_def split: option.splits sum.splits)

theorem reports_degrade_to_empty_witness:
  "report_appointments False
     (Some [\<lparr>oid = ''0000000000000000000000ff'', props = [], createdAt = 0, updatedAt = 0\<rparr>]) =
     Sent (Response 200 (TotalJson 0)) \<and>
   report_billing True None = Sent (Response 200 (GroupsJson []))"
  using reports_degrade_to_empty [where up = False and B = None and
      A = "Some [\<lparr>oid = ''0000000000000000000000ff'', props = [], createdAt = 0, updatedAt = 0\<rparr>]"]
    reports_degrade_to_empty [where up = True and B = None and A = None]
  by simp

section \<open>Dates that are no dates\<close>

text \<open>
  Claim C10, as stated: a date string of the right shape that denotes no calendar date
  passes validation, and create accepts the payload. The first half holds; create does
  not accept every such payload: \<^verbatim>\<open>new Date('2024-13-99')\<close> is an \<open>Invalid Date\<close>, the model
  refuses to cast it for the path \<^verbatim>\<open>dob\<close>, and the handler's \<^verbatim>\<open>catch\<close> answers 400.
\<close>

theorem create_rejects_month_13:
  "zparse_value (ZString [Regex date_rx]) (JStr ''2024-13-99'') = [] \<and>
   handle_post Patients \<lparr>now = 5, new_oid = 255, tza = (\<lambda>t. 0)\<rparr> []
     (JObj [(''name'', JStr ''Jane Doe''), (''dob'', JStr ''2024-13-99'')]) =
   ([], Sent (Response 400 (ErrorJson ''validation_error''
          (Some (PathErrors [(''dob'', cast_failed)])))))"
  using post_month_13 by (simp add: date_rx_def is_digit_def)

text \<open>
  Claim C10, amended: date and datetime validation is a pure digit-pattern match. In every
  module, the create schema gives each date field of the model one of the two patterns,
  and every string of the shape YYYY-MM-DD (or YYYY-MM-DDTHH:MM:SS.mmm with an optional
  Z) raises no issue on a field with that pattern, even when it denotes no calendar date.
  Whether create accepts the payload is decided by \<^verbatim>\<open>new Date\<close>. When a validated date
  string gives an \<open>Invalid Date\<close>, as \<^verbatim>\<open>'2024-13-99'\<close> does, the model rejects the document,
  and create answers 400 \<^verbatim>\<open>validation_error\<close> with a cast error for that field and writes
  nothing. When the date of birth of a validated patient payload gives a valid date,
  create answers 201 and stores that date, which need not be the one written:
  \<^verbatim>\<open>'0004-13-12'\<close> is stored as 13 April 2012.
\<close>

theorem date_shape_passes_validation_only:
  "(k \<in> set (date_paths r) \<longrightarrow>
      (k, ZString [Regex date_rx]) \<in> set (CreateSchema r) \<or>
      (k, ZString [Regex datetime_rx]) \<in> set (CreateSchema r)) \<and>
   ((k, ZString [Regex date_rx]) \<in> set (CreateSchema r) \<and>
    digits 4 y \<and> digits 2 m \<and> digits 2 d \<and> prop_get kvs k = JStr (date_string y m d) \<longrightarrow>
      field_issues kvs (k, ZString [Regex date_rx]) = []) \<and>
   ((k, ZString [Regex datetime_rx]) \<in> set (CreateSchema r) \<and>
    digits 4 y \<and> digits 2 m \<and> digits 2 d \<and> digits 2 h \<and> digits 2 mi \<and> digits 2 sec \<and>
    digits 3 ms \<and> prop_get kvs k = JStr (datetime_string y m d h mi sec ms zone) \<longrightarrow>
      field_issues kvs (k, ZString [Regex datetime_rx]) = []) \<and>
   (zparse (CreateSchema r) body = Inr data \<and> k \<in> set (date_paths r) \<and>
    prop_get data k = JStr s \<and> Date_parse (tza e) s = None \<longrightarrow>
      (\<exists>errs. (k, cast_failed) \<in> set errs \<and>
         handle_post r e c body =
           (c, Sent (Response 400 (ErrorJson ''validation_error'' (Some (PathErrors errs))))))) \<and>
   (zparse (CreateSchema Patients) (JObj pkvs) = Inr pdata \<and> prop_get pkvs ''dob'' = JStr s \<and>
    Date_parse (tza e) s = Some t \<and> find_doc (hex24 (new_oid e)) c = None \<longrightarrow>
      (\<exists>d. handle_post Patients e c (JObj pkvs) =
              (c @ [d], Sent (Response 201 (DocJson d))) \<and>
           map_of (props d) ''dob'' = Some (BDate t)))"
proof -
  have "k \<in> set (date_paths r) \<longrightarrow>
      (k, ZString [Regex date_rx]) \<in> set (CreateSchema r) \<or>
      (k, ZString [Regex datetime_rx]) \<in> set (CreateSchema r)"
    by (simp add: date_paths_rule)
  moreover have "digits 4 y \<and> digits 2 m \<and> digits 2 d \<and>
      prop_get kvs k = JStr (date_string y m d) \<longrightarrow>
      field_issues kvs (k, ZString [Regex date_rx]) = []"
    by (simp add: field_issues_def rx_match_date_string)
  moreover have "digits 4 y \<and> digits 2 m \<and> digits 2 d \<and> digits 2 h \<and> digits 2 mi \<and>
      digits 2 sec \<and> digits 3 ms \<and>
      prop_get kvs k = JStr (datetime_string y m d h mi sec ms zone) \<longrightarrow>
      field_issues kvs (k, ZString [Regex datetime_rx]) = []"
    by (simp add: field_issues_def rx_match_datetime_string)
  moreover have "zparse (CreateSchema r) body = Inr data \<and> k \<in> set (date_paths r) \<and>
      prop_get data k = JStr s \<and> Date_parse (tza e) s = None \<longrightarrow>
      (\<exists>errs. (k, cast_failed) \<in> set errs \<and>
         handle_post r e c body =
           (c, Sent (Response 400 (ErrorJson ''validation_error'' (Some (PathErrors errs))))))"
    using post_invalid_date [of r body data k s e c] by simp
  moreover have "zparse (CreateSchema Patients) (JObj pkvs) = Inr pdata \<and>
      prop_get pkvs ''dob'' = JStr s \<and> Date_parse (tza e) s = Some t \<and>
      find_doc (hex24 (new_oid e)) c = None \<longrightarrow>
      (\<exists>d. handle_post Patients e c (JObj pkvs) =
              (c @ [d], Sent (Response 201 (DocJson d))) \<and>
           map_of (props d) ''dob'' = Some (BDate t))"
    using create_patient [of pkvs pdata s e t c] by simp
  ultimately show ?thesis by blast
qed

theorem date_shape_passes_validation_only_witness:
  "''dob'' \<in> set (date_paths Patients) \<and>
   (''dob'', ZString [Regex date_rx]) \<in> set (CreateSchema Patients) \<and>
   ''date'' \<in> set (date_paths Encounters) \<and>
   (''date'', ZString [Regex datetime_rx]) \<in> set (CreateSchema Encounters) \<and>
   digits 4 ''2024'' \<and> digits 2 ''13'' \<and> digits 2 ''99'' \<and> digits 2 ''25'' \<and> digits 2 ''61'' \<and>
   digits 3 ''000'' \<and>
   field_issues [(''name'', JStr ''Jane Doe''), (''dob'', JStr ''2024-13-99'')]
     (''dob'', ZString [Regex date_rx]) = [] \<and>
   field_issues [(''date'', JStr ''2024-13-99T25:61:61.000Z'')]
     (''date'', ZString [Regex datetime_rx]) = [] \<and>
   zparse (CreateSchema Patients)
     (JObj [(''name'', JStr ''Jane Doe''), (''dob'', JStr ''2024-13-99'')]) =
     Inr [(''name'', JStr ''Jane Doe''), (''dob'', JStr ''2024-13-99'')] \<and>
   Date_parse (\<lambda>t. 0) ''2024-13-99'' = None \<and>
   handle_post Patients \<lparr>now = 5, new_oid = 255, tza = (\<lambda>t. 0)\<rparr> []
     (JObj [(''name'', JStr ''Jane Doe''), (''dob'', JStr ''2024-13-99'')]) =
   ([], Sent (Response 400 (ErrorJson ''validation_error''
          (Some (PathErrors [(''dob'', cast_failed)]))))) \<and>
   zparse (CreateSchema Patients)
     (JObj [(''name'', JStr ''Jane Doe''), (''dob'', JStr ''0004-13-12'')]) =
     Inr [(''name'', JStr ''Jane Doe''), (''dob'', JStr ''0004-13-12'')] \<and>
   Date_parse (\<lambda>t. 0) ''0004-13-12'' = Some 1334275200000 \<and>
   (\<exists>d. handle_post Patients \<lparr>now = 5, new_oid = 255, tza = (\<lambda>t. 0)\<rparr> []
           (JObj [(''name'', JStr ''Jane Doe''), (''dob'', JStr ''0004-13-12'')]) =
         ([d], Sent (Response 201 (DocJson d))) \<and>
         map_of (props d) ''dob'' = Some (BDate 1334275200000))"
proof -
  let ?e = "\<lparr>now = 5, new_oid = 255, tza = (\<lambda>t. 0)\<rparr>"
  have d: "digits 4 ''2024''" "digits 2 ''13''" "digits 2 ''99''" "digits 2 ''25''"
    "digits 2 ''61''" "digits 3 ''000''"
    by (simp_all add: digits_def is_digit_def)
  have p: "''dob'' \<in> set (date_paths Patients)" "''date'' \<in> set (date_paths Encounters)"
    "(''dob'', ZString [Regex date_rx]) \<in> set (CreateSchema Patients)"
    "(''date'', ZString [Regex datetime_rx]) \<in> set (CreateSchema Encounters)"
    by (simp_all add: date_paths_def patientSchema_def encounterSchema_def req_def
        PatientCreate_def EncounterCreate_def)
  have g: "prop_get [(''name'', JStr ''Jane Doe''), (''dob'', JStr ''2024-13-99'')] ''dob'' =
      JStr ''2024-13-99''"
    "prop_get [(''name'', JStr ''Jane Doe''), (''dob'', JStr ''0004-13-12'')] ''dob'' =
      JStr ''0004-13-12''"
    "prop_get [(''date'', JStr ''2024-13-99T25:61:61.000Z'')] ''date'' =
      JStr ''2024-13-99T25:61:61.000Z''"
    by (simp_all add: prop_get_def)
  have f: "find_doc (hex24 (new_oid ?e)) [] = None"
    by (simp add: find_doc_def)
  have a: "field_issues [(''name'', JStr ''Jane Doe''), (''dob'', JStr ''2024-13-99'')]
      (''dob'', ZString [Regex date_rx]) = []"
    using d p g
      date_shape_passes_validation_only [where k = "''dob''" and r = Patients
        and y = "''2024''" and m = "''13''" and d = "''99''"
        and kvs = "[(''name'', JStr ''Jane Doe''), (''dob'', JStr ''2024-13-99'')]"]
    by (simp add: date_string_def)
  have b: "field_issues [(''date'', JStr ''2024-13-99T25:61:61.000Z'')]
      (''date'', ZString [Regex datetime_rx]) = []"
    using d p g
      date_shape_passes_validation_only [where k = "''date''" and r = Encounters
        and y = "''2024''" and m = "''13''" and d = "''99''" and h = "''25''"
        and mi = "''61''" and sec = "''61''" and ms = "''000''" and zone = True
        and kvs = "[(''date'', JStr ''2024-13-99T25:61:61.000Z'')]"]
    by (simp add: datetime_string_def)
  have c: "\<exists>d. handle_post Patients ?e []
           (JObj [(''name'', JStr ''Jane Doe''), (''dob'', JStr ''0004-13-12'')]) =
         ([d], Sent (Response 201 (DocJson d))) \<and>
         map_of (props d) ''dob'' = Some (BDate 1334275200000)"
    using g f zparse_legacy_date Date_parse_legacy_date
      date_shape_passes_validation_only [where e = ?e and c = "[]"
        and pkvs = "[(''name'', JStr ''Jane Doe''), (''dob'', JStr ''0004-13-12'')]"
        and pdata = "[(''name'', JStr ''Jane Doe''), (''dob'', JStr ''0004-13-12'')]"
        and s = "''0004-13-12''" and t = 1334275200000]
    by simp
  show ?thesis
    using d p a b c zparse_month_13 post_month_13 Date_parse_month_13 [of "\<lambda>t. 0"]
      zparse_legacy_date Date_parse_legacy_date
    by simp
qed

end
